theory Spec2Isabelle
  imports Complex_Main "HOL-Library.Word" "HOL-Library.List_Lexorder"
begin

section \<open>Python values used by the client\<close>

text \<open>
  The client of \<^verbatim>\<open>client.py\<close> is a class with four operations. It works on Python
  values: \<^verbatim>\<open>str\<close>, \<^verbatim>\<open>int\<close>, \<^verbatim>\<open>Decimal\<close>, \<^verbatim>\<open>dict\<close> and \<^verbatim>\<open>bytes\<close>.

  A Python \<^verbatim>\<open>str\<close> is a sequence of code points, and a code point may be a lone
  surrogate (U+D800 to U+DFFF), which \<^verbatim>\<open>encode('utf-8')\<close> refuses. The operations
  encode their strings before hashing, so a string is modelled as the list of its code
  points and the encoding as a function that can fail. String literals of the source are
  written \<open>str ''...''\<close>.
\<close>

type_synonym byte = "8 word"

type_synonym pystr = "nat list"

definition str :: "string \<Rightarrow> pystr" where
  "str s = map of_char s"

datatype error =
    RuntimeError pystr
  | UnicodeEncodeError
  | KeyError pystr
  | HTTPError int
  | JSONDecodeError
  | RequestException pystr

text \<open>
  \<^verbatim>\<open>s.encode('utf-8')\<close>: every code point that is a Unicode scalar value becomes one
  to four bytes; a surrogate (or a number that is no code point) raises
  \<^verbatim>\<open>UnicodeEncodeError\<close>.
\<close>

definition encodable :: "nat \<Rightarrow> bool" where
  "encodable c = (c < 0xD800 \<or> (0xE000 \<le> c \<and> c < 0x110000))"

definition utf8_char :: "nat \<Rightarrow> byte list" where
  "utf8_char c =
     (if c < 0x80 then [of_nat c]
      else if c < 0x800 then [of_nat (0xC0 + c div 0x40), of_nat (0x80 + c mod 0x40)]
      else if c < 0x10000 then
        [of_nat (0xE0 + c div 0x1000), of_nat (0x80 + c div 0x40 mod 0x40),
         of_nat (0x80 + c mod 0x40)]
      else
        [of_nat (0xF0 + c div 0x40000), of_nat (0x80 + c div 0x1000 mod 0x40),
         of_nat (0x80 + c div 0x40 mod 0x40), of_nat (0x80 + c mod 0x40)])"

fun encode :: "pystr \<Rightarrow> error + byte list" where
  "encode [] = Inr []"
| "encode (c # cs) =
     (if encodable c then
        (case encode cs of Inl e \<Rightarrow> Inl e | Inr bs \<Rightarrow> Inr (utf8_char c @ bs))
      else Inl UnicodeEncodeError)"

text \<open>The bytes of a string that can be encoded.\<close>

definition utf8 :: "pystr \<Rightarrow> byte list" where
  "utf8 s = concat (map utf8_char s)"

text \<open>\<^verbatim>\<open>hexdigest()\<close>: two lowercase hexadecimal digits for every byte of the digest.\<close>

definition hex_digit :: "nat \<Rightarrow> nat" where
  "hex_digit n = (if n < 10 then 48 + n else 87 + n)"

definition hexdigest :: "byte list \<Rightarrow> pystr" where
  "hexdigest bs = concat (map (\<lambda>b. [hex_digit (unat b div 16), hex_digit (unat b mod 16)]) bs)"

text \<open>
  \<^verbatim>\<open>str(i)\<close> for a Python \<^verbatim>\<open>int\<close>, which is unbounded: the decimal digits, after a
  minus sign when negative. (The interpreter can be set to refuse the conversion of an
  integer of several thousand digits; that safeguard is not part of the model.)
\<close>

fun nat_digits :: "nat \<Rightarrow> pystr" where
  "nat_digits n = (if n < 10 then [48 + n] else nat_digits (n div 10) @ [48 + n mod 10])"

definition str_int :: "int \<Rightarrow> pystr" where
  "str_int i = (if i < 0 then 45 # nat_digits (nat (- i)) else nat_digits (nat i))"

text \<open>
  The values the payload dictionaries hold are integers and strings. A \<^verbatim>\<open>dict\<close> keeps
  its keys in insertion order, so it is an association list; \<open>dict_set\<close> is
  \<^verbatim>\<open>d[k] = v\<close>.
\<close>

datatype pyval = PInt int | PStr pystr

type_synonym pydict = "(pystr \<times> pyval) list"

fun py_str :: "pyval \<Rightarrow> pystr" where
  "py_str (PInt i) = str_int i"
| "py_str (PStr s) = s"

fun dict_set :: "pydict \<Rightarrow> pystr \<Rightarrow> pyval \<Rightarrow> pydict" where
  "dict_set [] k v = [(k, v)]"
| "dict_set ((k', v') # d) k v = (if k' = k then (k, v) # d else (k', v') # dict_set d k v)"

definition dict_keys :: "pydict \<Rightarrow> pystr list" where
  "dict_keys d = map fst d"

text \<open>\<^verbatim>\<open>sep.join(xs)\<close>.\<close>

fun join :: "pystr \<Rightarrow> pystr list \<Rightarrow> pystr" where
  "join sep [] = []"
| "join sep [x] = x"
| "join sep (x # y # ys) = x @ sep @ join sep (y # ys)"

subsection \<open>Decimal and its two-place formatting\<close>

text \<open>
  A \<^verbatim>\<open>Decimal\<close> is a sign, a coefficient and an exponent (the value is
  \<open>\<plusminus> coefficient \<times> 10\<^bsup>exponent\<^esup>\<close>), or one of the special values: an infinity, a
  quiet or a signalling NaN (with a sign and a diagnostic payload, \<open>0\<close> for none).
\<close>

datatype decimal =
    Finite bool nat int
  | Infinity bool
  | NaN bool nat
  | sNaN bool nat

text \<open>
  The format \<^verbatim>\<open>f'{amount:.2f}'\<close> rescales a finite value to the exponent \<open>-2\<close>.
  When digits have to be dropped, the rounding mode is read from the current decimal
  context (\<^verbatim>\<open>decimal.getcontext().rounding\<close>; \<^verbatim>\<open>ROUND_HALF_EVEN\<close> unless the
  program has set another). With \<open>q\<close> the digits kept, \<open>r\<close> the digits dropped and
  \<open>p\<close> the unit of the last digit kept, \<open>goes_up\<close> says whether the mode adds one to
  \<open>q\<close>. A special value is printed by its name.
\<close>

datatype rounding =
    ROUND_CEILING
  | ROUND_DOWN
  | ROUND_FLOOR
  | ROUND_HALF_DOWN
  | ROUND_HALF_EVEN
  | ROUND_HALF_UP
  | ROUND_UP
  | ROUND_05UP

fun goes_up :: "rounding \<Rightarrow> bool \<Rightarrow> nat \<Rightarrow> nat \<Rightarrow> nat \<Rightarrow> bool" where
  "goes_up ROUND_CEILING neg q r p = (\<not> neg \<and> r \<noteq> 0)"
| "goes_up ROUND_DOWN neg q r p = False"
| "goes_up ROUND_FLOOR neg q r p = (neg \<and> r \<noteq> 0)"
| "goes_up ROUND_HALF_DOWN neg q r p = (p < 2 * r)"
| "goes_up ROUND_HALF_EVEN neg q r p = (p < 2 * r \<or> (2 * r = p \<and> odd q))"
| "goes_up ROUND_HALF_UP neg q r p = (p \<le> 2 * r)"
| "goes_up ROUND_UP neg q r p = (r \<noteq> 0)"
| "goes_up ROUND_05UP neg q r p = (r \<noteq> 0 \<and> (q mod 10 = 0 \<or> q mod 10 = 5))"

definition rescale :: "rounding \<Rightarrow> bool \<Rightarrow> nat \<Rightarrow> int \<Rightarrow> nat" where
  "rescale mode neg c e =
     (if - 2 \<le> e then c * 10 ^ nat (e + 2)
      else
        let p = 10 ^ nat (- 2 - e); q = c div p; r = c mod p
        in if goes_up mode neg q r p then q + 1 else q)"

definition minus_sign :: "bool \<Rightarrow> pystr" where
  "minus_sign neg = (if neg then str ''-'' else [])"

definition payload_str :: "nat \<Rightarrow> pystr" where
  "payload_str p = (if p = 0 then [] else nat_digits p)"

fun format_2f :: "rounding \<Rightarrow> decimal \<Rightarrow> pystr" where
  "format_2f mode (Finite neg c e) =
     (let q = rescale mode neg c e
      in minus_sign neg @ nat_digits (q div 100) @ str ''.'' @ [48 + q div 10 mod 10, 48 + q mod 10])"
| "format_2f mode (Infinity neg) = minus_sign neg @ str ''Infinity''"
| "format_2f mode (NaN neg p) = minus_sign neg @ str ''NaN'' @ payload_str p"
| "format_2f mode (sNaN neg p) = minus_sign neg @ str ''sNaN'' @ payload_str p"

text \<open>
  An amount with at most two fraction digits is formatted without rounding, as is a
  special value.
\<close>

fun needs_no_rounding :: "decimal \<Rightarrow> bool" where
  "needs_no_rounding (Finite neg c e) = (- 2 \<le> e)"
| "needs_no_rounding (Infinity neg) = True"
| "needs_no_rounding (NaN neg p) = True"
| "needs_no_rounding (sNaN neg p) = True"

text \<open>The value of a finite decimal, and of a count of hundredths.\<close>

definition pow10 :: "int \<Rightarrow> real" where
  "pow10 e = (if 0 \<le> e then 10 ^ nat e else 1 / 10 ^ nat (- e))"

definition magnitude :: "nat \<Rightarrow> int \<Rightarrow> real" where
  "magnitude c e = real c * pow10 e"

subsection \<open>What the client takes from the Python runtime\<close>

text \<open>
  The digest functions of \<^verbatim>\<open>hashlib\<close> and \<^verbatim>\<open>hmac\<close>, \<^verbatim>\<open>str.lower\<close> (whose
  table covers all of Unicode) and the JSON decoder of a response are library code: the
  model takes them as parameters. The rounding mode of the current decimal context is
  state of the \<^verbatim>\<open>decimal\<close> module that the client reads and never sets: it is a
  parameter as well.
\<close>

record 'j runtime =
  md5_digest :: "byte list \<Rightarrow> byte list"
  hmac_sha256_digest :: "byte list \<Rightarrow> byte list \<Rightarrow> byte list"
  lower :: "pystr \<Rightarrow> pystr"
  json_loads :: "byte list \<Rightarrow> 'j option"
  context_rounding :: rounding

text \<open>
  \<^verbatim>\<open>urllib.parse.urlencode\<close> of a dictionary: \<^verbatim>\<open>quote_plus\<close> of \<^verbatim>\<open>str\<close> of every key
  and value, \<open>k=v\<close> joined with \<open>&\<close> in the dictionary's order. \<^verbatim>\<open>quote_plus\<close>
  encodes the string as UTF-8, keeps the bytes of letters, digits and \<open>_.-~\<close>, writes a
  space as \<open>+\<close> and every other byte as \<open>%XX\<close> with uppercase digits.
\<close>

definition always_safe :: "nat \<Rightarrow> bool" where
  "always_safe b =
     ((65 \<le> b \<and> b \<le> 90) \<or> (97 \<le> b \<and> b \<le> 122) \<or> (48 \<le> b \<and> b \<le> 57)
      \<or> b = 95 \<or> b = 46 \<or> b = 45 \<or> b = 126)"

definition upper_hex_digit :: "nat \<Rightarrow> nat" where
  "upper_hex_digit n = (if n < 10 then 48 + n else 55 + n)"

definition quote_byte :: "byte \<Rightarrow> pystr" where
  "quote_byte b =
     (if always_safe (unat b) then [unat b]
      else if unat b = 32 then str ''+''
      else str ''%'' @ [upper_hex_digit (unat b div 16), upper_hex_digit (unat b mod 16)])"

definition quote_plus :: "pystr \<Rightarrow> error + pystr" where
  "quote_plus s =
     (case encode s of Inl e \<Rightarrow> Inl e | Inr bs \<Rightarrow> Inr (concat (map quote_byte bs)))"

fun urlencode_items :: "pydict \<Rightarrow> error + pystr list" where
  "urlencode_items [] = Inr []"
| "urlencode_items ((k, v) # d) =
     (case quote_plus k of Inl e \<Rightarrow> Inl e | Inr k' \<Rightarrow>
      (case quote_plus (py_str v) of Inl e \<Rightarrow> Inl e | Inr v' \<Rightarrow>
       (case urlencode_items d of Inl e \<Rightarrow> Inl e | Inr l \<Rightarrow> Inr ((k' @ str ''='' @ v') # l))))"

definition urlencode :: "pydict \<Rightarrow> error + pystr" where
  "urlencode d = (case urlencode_items d of Inl e \<Rightarrow> Inl e | Inr l \<Rightarrow> Inr (join (str ''&'') l))"

subsection \<open>The HTTP library\<close>

text \<open>
  \<^verbatim>\<open>requests.post(url, json=payload, timeout=10)\<close> is a call to the network. The state
  of the network is the list of the requests made so far; the other side is a function
  that answers a request, given the earlier ones, with a response or with the exception
  the library raises (a connection error, a timeout).
\<close>

record request =
  req_url :: pystr
  req_json :: pydict
  req_timeout :: nat

record response =
  status_code :: int
  content :: "byte list"

type_synonym network = "request list"

type_synonym transport = "request list \<Rightarrow> request \<Rightarrow> error + response"

definition requests_post :: "transport \<Rightarrow> request \<Rightarrow> network \<Rightarrow> (error + response) \<times> network" where
  "requests_post srv req net = (srv net req, net @ [req])"

definition raise_for_status :: "response \<Rightarrow> error + unit" where
  "raise_for_status r =
     (if 400 \<le> status_code r \<and> status_code r < 600 then Inl (HTTPError (status_code r))
      else Inr ())"

definition response_json :: "'j runtime \<Rightarrow> response \<Rightarrow> error + 'j" where
  "response_json rt r =
     (case json_loads rt (content r) of None \<Rightarrow> Inl JSONDecodeError | Some j \<Rightarrow> Inr j)"

text \<open>
  A runtime for evaluating the operations on concrete inputs, with the default rounding
  mode. No property below depends on what a digest is, so simple functions stand in their
  place here; \<open>ascii_lower\<close> is \<^verbatim>\<open>str.lower\<close> on ASCII text.
\<close>

definition ascii_lower :: "pystr \<Rightarrow> pystr" where
  "ascii_lower s = map (\<lambda>c. if 65 \<le> c \<and> c \<le> 90 then c + 32 else c) s"

definition sample_rt :: "(byte list) runtime" where
  "sample_rt =
     \<lparr>md5_digest = (\<lambda>bs. [of_nat (length bs)]),
      hmac_sha256_digest = (\<lambda>k m. [of_nat (length k), of_nat (length m)]),
      lower = ascii_lower,
      json_loads = (\<lambda>bs. if bs = [] then None else Some bs),
      context_rounding = ROUND_HALF_EVEN\<rparr>"

section \<open>The client\<close>

text \<open>
  The fields that \<^verbatim>\<open>__init__\<close> sets (without the leading underscore). An argument
  with the default \<^verbatim>\<open>None\<close> is an option; the caller of \<open>init\<close> passes every
  argument, \<open>None\<close> and the nonce \<open>1\<close> where the source's caller leaves them out.
\<close>

record FreeKassaClient =
  merchant_id :: int
  secret1 :: pystr
  secret2 :: pystr
  api_key :: "pystr option"
  success_url :: "pystr option"
  fail_url :: "pystr option"
  notify_url :: "pystr option"
  api_url :: pystr
  ui_url :: pystr
  nonce :: int

text \<open>
  \<^verbatim>\<open>if api_url:\<close> and \<^verbatim>\<open>if not self._api_key:\<close> test the truth value of an
  optional string: \<^verbatim>\<open>None\<close> and the empty string are false, every other string is
  true.
\<close>

definition default_api_url :: pystr where
  "default_api_url = str ''https://api.fk.life/v1/''"

definition default_ui_url :: pystr where
  "default_ui_url = str ''https://pay.fk.money/''"

definition init ::
  "int \<Rightarrow> pystr \<Rightarrow> pystr \<Rightarrow> pystr option \<Rightarrow> pystr option \<Rightarrow> pystr option \<Rightarrow> pystr option \<Rightarrow>
   pystr option \<Rightarrow> pystr option \<Rightarrow> int \<Rightarrow> FreeKassaClient" where
  "init merchant secret_word_1 secret_word_2 key success fail notify api ui n =
     (let self = \<lparr>merchant_id = merchant, secret1 = secret_word_1, secret2 = secret_word_2,
                  api_key = key, success_url = success, fail_url = fail, notify_url = notify,
                  api_url = default_api_url, ui_url = default_ui_url, nonce = n\<rparr>;
          self = (case api of None \<Rightarrow> self
                  | Some u \<Rightarrow> if u = [] then self else self\<lparr>api_url := u\<rparr>);
          self = (case ui of None \<Rightarrow> self
                  | Some u \<Rightarrow> if u = [] then self else self\<lparr>ui_url := u\<rparr>)
      in self)"

text \<open>
  The instance that the module builds when it is loaded:
  \<^verbatim>\<open>client = FreeKassaClient(merchant_id=66058, secret_word_1=..., secret_word_2=..., api_key=...)\<close>.
\<close>

definition client :: FreeKassaClient where
  "client = init 66058 (str ''2aJ0hR?0Z-[=VJ6'') (str ''Hs)D3l&hb4(?xFf'')
     (Some (str ''962c879ce9be06f9d34a556872869220'')) None None None None None 1"

text \<open>
  The two static methods. \<^verbatim>\<open>ui_create_order\<close> writes
  \<^verbatim>\<open>hashlib.md5(sign_str.encode()).hexdigest()\<close> in place, which is \<open>md5hex\<close>: the
  default encoding is UTF-8.
\<close>

definition md5hex :: "'j runtime \<Rightarrow> pystr \<Rightarrow> error + pystr" where
  "md5hex rt data =
     (case encode data of Inl e \<Rightarrow> Inl e | Inr bs \<Rightarrow> Inr (hexdigest (md5_digest rt bs)))"

definition hmac_sha256_hex :: "'j runtime \<Rightarrow> pystr \<Rightarrow> pystr \<Rightarrow> error + pystr" where
  "hmac_sha256_hex rt message key =
     (case encode key of Inl e \<Rightarrow> Inl e | Inr kb \<Rightarrow>
      (case encode message of Inl e \<Rightarrow> Inl e | Inr mb \<Rightarrow>
       Inr (hexdigest (hmac_sha256_digest rt kb mb))))"

subsection \<open>verify\_notify\<close>

definition notify_sign_str :: "FreeKassaClient \<Rightarrow> pystr \<Rightarrow> pystr \<Rightarrow> pystr" where
  "notify_sign_str self amount order_id =
     str_int (merchant_id self) @ str '':'' @ amount @ str '':'' @ secret2 self @ str '':'' @ order_id"

definition verify_notify :: "'j runtime \<Rightarrow> FreeKassaClient \<Rightarrow> pystr \<Rightarrow> pystr \<Rightarrow> pystr \<Rightarrow> error + bool" where
  "verify_notify rt self amount order_id sign =
     (case md5hex rt (notify_sign_str self amount order_id) of
        Inl e \<Rightarrow> Inl e
      | Inr expected \<Rightarrow> Inr (lower rt expected = lower rt sign))"

subsection \<open>ui\_create\_order\<close>

definition ui_sign_str :: "FreeKassaClient \<Rightarrow> pystr \<Rightarrow> pystr \<Rightarrow> pystr \<Rightarrow> pystr" where
  "ui_sign_str self amount_str currency payment_id =
     str_int (merchant_id self) @ str '':'' @ amount_str @ str '':'' @ secret1 self @ str '':''
       @ currency @ str '':'' @ payment_id"

definition ui_payload :: "FreeKassaClient \<Rightarrow> pystr \<Rightarrow> pystr \<Rightarrow> pystr \<Rightarrow> pystr \<Rightarrow> int \<Rightarrow> pydict" where
  "ui_payload self amount_str currency payment_id signature payment_method_id =
     [(str ''m'', PInt (merchant_id self)),
      (str ''oa'', PStr amount_str),
      (str ''currency'', PStr currency),
      (str ''o'', PStr payment_id),
      (str ''s'', PStr signature),
      (str ''i'', PInt payment_method_id)]"

definition ui_create_order ::
  "'j runtime \<Rightarrow> FreeKassaClient \<Rightarrow> decimal \<Rightarrow> pystr \<Rightarrow> pystr \<Rightarrow> int \<Rightarrow> error + pystr" where
  "ui_create_order rt self amount currency payment_id payment_method_id =
     (let amount_str = format_2f (context_rounding rt) amount
      in case md5hex rt (ui_sign_str self amount_str currency payment_id) of
           Inl e \<Rightarrow> Inl e
         | Inr signature \<Rightarrow>
            (case urlencode (ui_payload self amount_str currency payment_id signature
                               payment_method_id) of
               Inl e \<Rightarrow> Inl e
             | Inr query \<Rightarrow> Inr (ui_url self @ str ''?'' @ query)))"

subsection \<open>The signed API calls\<close>

text \<open>
  The parameter \<^verbatim>\<open>nonce\<close> of \<^verbatim>\<open>api_create_order\<close> is written \<open>n\<close>, since
  \<open>nonce\<close> is the field of the client. Both API calls return their result together
  with the network after the call.

  Both API calls sign their payload with the same two lines:
  \<^verbatim>\<open>keys = sorted(payload.keys())\<close> and
  \<^verbatim>\<open>message = '|'.join(str(payload[k]) for k in keys)\<close>.
  Python compares strings code point by code point, as the lexicographic order of the
  lists does. A key that the dictionary does not hold raises \<^verbatim>\<open>KeyError\<close>.
\<close>

fun dict_get :: "pydict \<Rightarrow> pystr \<Rightarrow> error + pyval" where
  "dict_get [] k = Inl (KeyError k)"
| "dict_get ((k', v) # d) k = (if k' = k then Inr v else dict_get d k)"

fun str_values :: "pydict \<Rightarrow> pystr list \<Rightarrow> error + pystr list" where
  "str_values d [] = Inr []"
| "str_values d (k # ks) =
     (case dict_get d k of Inl e \<Rightarrow> Inl e | Inr v \<Rightarrow>
      (case str_values d ks of Inl e \<Rightarrow> Inl e | Inr vs \<Rightarrow> Inr (py_str v # vs)))"

definition sign_message :: "pydict \<Rightarrow> error + pystr" where
  "sign_message payload =
     (let keys = sort (dict_keys payload)
      in case str_values payload keys of Inl e \<Rightarrow> Inl e | Inr vs \<Rightarrow> Inr (join (str ''|'') vs))"

definition api_create_payload ::
  "rounding \<Rightarrow> FreeKassaClient \<Rightarrow> int \<Rightarrow> int \<Rightarrow> pystr \<Rightarrow> pystr \<Rightarrow> pystr \<Rightarrow> decimal \<Rightarrow> pystr \<Rightarrow>
   pydict" where
  "api_create_payload mode self n i user_email user_ip payment_id amount currency =
     [(str ''shopId'', PInt (merchant_id self)),
      (str ''nonce'', PInt n),
      (str ''amount'', PStr (format_2f mode amount)),
      (str ''currency'', PStr currency),
      (str ''paymentId'', PStr payment_id),
      (str ''ip'', PStr user_ip),
      (str ''email'', PStr user_email),
      (str ''i'', PInt i)]"

definition api_key_error :: error where
  "api_key_error = RuntimeError (str ''API key is not set'')"

definition api_create_order ::
  "'j runtime \<Rightarrow> transport \<Rightarrow> FreeKassaClient \<Rightarrow> int \<Rightarrow> int \<Rightarrow> pystr \<Rightarrow> pystr \<Rightarrow> pystr \<Rightarrow> decimal \<Rightarrow> pystr \<Rightarrow>
   network \<Rightarrow> (error + 'j) \<times> network" where
  "api_create_order rt srv self n i user_email user_ip payment_id amount currency net =
     (case api_key self of
        None \<Rightarrow> (Inl api_key_error, net)
      | Some key \<Rightarrow>
        if key = [] then (Inl api_key_error, net)
        else
          (let payload = api_create_payload (context_rounding rt) self n i user_email user_ip
                           payment_id amount currency
           in (case sign_message payload of
             Inl e \<Rightarrow> (Inl e, net)
           | Inr message \<Rightarrow>
              (case hmac_sha256_hex rt message key of
                 Inl e \<Rightarrow> (Inl e, net)
               | Inr signature \<Rightarrow>
                  (let payload = dict_set payload (str ''signature'') (PStr signature)
                   in case requests_post srv
                          \<lparr>req_url = api_url self @ str ''orders/create'', req_json = payload,
                           req_timeout = 10\<rparr> net of
                        (Inl e, net') \<Rightarrow> (Inl e, net')
                      | (Inr r, net') \<Rightarrow> (response_json rt r, net'))))))"

definition api_get_payload :: "FreeKassaClient \<Rightarrow> pystr \<Rightarrow> pydict" where
  "api_get_payload self payment_id =
     [(str ''shopId'', PInt (merchant_id self)),
      (str ''nonce'', PInt (nonce self)),
      (str ''paymentId'', PStr payment_id)]"

definition api_get_order ::
  "'j runtime \<Rightarrow> transport \<Rightarrow> FreeKassaClient \<Rightarrow> pystr \<Rightarrow> network \<Rightarrow> (error + 'j) \<times> network" where
  "api_get_order rt srv self payment_id net =
     (case api_key self of
        None \<Rightarrow> (Inl api_key_error, net)
      | Some key \<Rightarrow>
        if key = [] then (Inl api_key_error, net)
        else
          (let payload = api_get_payload self payment_id
           in (case sign_message payload of
             Inl e \<Rightarrow> (Inl e, net)
           | Inr message \<Rightarrow>
              (case hmac_sha256_hex rt message key of
                 Inl e \<Rightarrow> (Inl e, net)
               | Inr signature \<Rightarrow>
                  (let payload = dict_set payload (str ''signature'') (PStr signature)
                   in case requests_post srv
                          \<lparr>req_url = api_url self @ str ''orders'', req_json = payload,
                           req_timeout = 10\<rparr> net of
                        (Inl e, net') \<Rightarrow> (Inl e, net')
                      | (Inr r, net') \<Rightarrow>
                         (case raise_for_status r of
                            Inl e \<Rightarrow> (Inl e, net')
                          | Inr u \<Rightarrow> (response_json rt r, net')))))))"

section \<open>Notions for the statements\<close>

text \<open>
  \<open>quoted\<close> is the percent-encoding of a string that can be encoded: the result of
  \<^verbatim>\<open>quote_plus\<close> when it does not raise.
\<close>

definition quoted :: "pystr \<Rightarrow> pystr" where
  "quoted s = concat (map quote_byte (utf8 s))"

text \<open>
  The specification's words for the API signature: the values of the payload in the
  order of the sorted keys (\<open>amount, currency, email, i, ip, nonce, paymentId, shopId\<close>
  for create-order; \<open>nonce, paymentId, shopId\<close> for get-order), each as a string,
  joined with \<open>|\<close>; the signature is the hexadecimal HMAC-SHA256 of that message under
  the API key, both encoded as UTF-8.
\<close>

definition spec_create_message ::
  "FreeKassaClient \<Rightarrow> int \<Rightarrow> int \<Rightarrow> pystr \<Rightarrow> pystr \<Rightarrow> pystr \<Rightarrow> pystr \<Rightarrow> pystr \<Rightarrow> pystr" where
  "spec_create_message self n i user_email user_ip payment_id amount_str currency =
     amount_str @ str ''|'' @ currency @ str ''|'' @ user_email @ str ''|'' @ str_int i
       @ str ''|'' @ user_ip @ str ''|'' @ str_int n @ str ''|'' @ payment_id @ str ''|''
       @ str_int (merchant_id self)"

definition spec_get_message :: "FreeKassaClient \<Rightarrow> pystr \<Rightarrow> pystr" where
  "spec_get_message self payment_id =
     str_int (nonce self) @ str ''|'' @ payment_id @ str ''|'' @ str_int (merchant_id self)"

definition spec_signature :: "'j runtime \<Rightarrow> pystr \<Rightarrow> pystr \<Rightarrow> pystr" where
  "spec_signature rt key message = hexdigest (hmac_sha256_digest rt (utf8 key) (utf8 message))"

text \<open>
  Reading a fixed-point string back: a digit is one of \<open>0\<close> to \<open>9\<close>, and
  \<open>digits_value\<close> is the number that a string of digits denotes.
\<close>

definition is_digit :: "nat \<Rightarrow> bool" where
  "is_digit d = (48 \<le> d \<and> d \<le> 57)"

definition digits_value :: "pystr \<Rightarrow> nat" where
  "digits_value ds = foldl (\<lambda>a d. 10 * a + (d - 48)) 0 ds"

section \<open>Properties\<close>

subsection \<open>Strings, digits and the encoding\<close>

declare nat_digits.simps [simp del]

declare format_2f.simps [simp del]

lemma encode_eq:
  "encode s = (if list_all encodable s then Inr (utf8 s) else Inl UnicodeEncodeError)"
  by (induction s) (simp_all add: utf8_def)

lemma list_all_imp: "list_all P xs \<Longrightarrow> (\<And>x. P x \<Longrightarrow> Q x) \<Longrightarrow> list_all Q xs"
  by (induction xs) auto

lemma nat_digits_range: "list_all (\<lambda>d. 48 \<le> d \<and> d \<le> 57) (nat_digits n)"
proof (induction n rule: nat_digits.induct)
  case (1 n)
  show ?case
  proof (cases "n < 10")
    case True
    then show ?thesis by (simp add: nat_digits.simps [of n])
  next
    case False
    with 1 show ?thesis by (simp add: nat_digits.simps [of n])
  qed
qed

lemma nat_digits_nonempty: "nat_digits n \<noteq> []"
  by (simp add: nat_digits.simps [of n])

lemma always_safe_encodable: "always_safe c \<Longrightarrow> encodable c"
  by (auto simp: always_safe_def encodable_def)

lemma safe_encodable: "list_all always_safe s \<Longrightarrow> list_all encodable s"
  by (rule list_all_imp [OF _ always_safe_encodable])

lemma digit_safe: "d < 10 \<Longrightarrow> always_safe (48 + d)"
  by (auto simp: always_safe_def)

lemma safe_nat_digits: "list_all always_safe (nat_digits n)"
  by (rule list_all_imp [OF nat_digits_range]) (simp add: always_safe_def)

lemma safe_str_int: "list_all always_safe (str_int i)"
  by (simp add: str_int_def safe_nat_digits always_safe_def)

lemma safe_format_2f: "list_all always_safe (format_2f mode a)"
proof (cases a)
  case (Finite neg c e)
  have "always_safe (48 + rescale mode neg c e div 10 mod 10)"
    "always_safe (48 + rescale mode neg c e mod 10)"
    by (simp_all add: digit_safe)
  then show ?thesis
    using Finite
    by (simp add: format_2f.simps Let_def minus_sign_def safe_nat_digits str_def always_safe_def)
next
  case (Infinity neg)
  then show ?thesis by (simp add: format_2f.simps minus_sign_def str_def always_safe_def)
next
  case (NaN neg p)
  then show ?thesis
    by (simp add: format_2f.simps minus_sign_def payload_str_def safe_nat_digits str_def
        always_safe_def)
next
  case (sNaN neg p)
  then show ?thesis
    by (simp add: format_2f.simps minus_sign_def payload_str_def safe_nat_digits str_def
        always_safe_def)
qed

lemma hex_digit_safe: "n < 16 \<Longrightarrow> always_safe (hex_digit n)"
  by (auto simp: hex_digit_def always_safe_def)

lemma safe_hexdigest: "list_all always_safe (hexdigest bs)"
proof (induction bs)
  case Nil
  show ?case by (simp add: hexdigest_def)
next
  case (Cons b bs)
  have "unat b < 2 ^ LENGTH(8)" by (rule unsigned_less)
  then have "unat b < 256" by simp
  then have "unat b div 16 < 16" by simp
  then have "always_safe (hex_digit (unat b div 16))" "always_safe (hex_digit (unat b mod 16))"
    by (simp_all add: hex_digit_safe)
  with Cons show ?case by (simp add: hexdigest_def)
qed

lemma md5hex_eq:
  "md5hex rt data = (if list_all encodable data then Inr (hexdigest (md5_digest rt (utf8 data)))
                      else Inl UnicodeEncodeError)"
  by (simp add: md5hex_def encode_eq)

lemma hmac_sha256_hex_eq:
  "hmac_sha256_hex rt message key =
     (if list_all encodable key \<and> list_all encodable message
      then Inr (spec_signature rt key message) else Inl UnicodeEncodeError)"
  by (simp add: hmac_sha256_hex_def encode_eq spec_signature_def)

text \<open>Reading the digits of a number back gives the number.\<close>

lemma digits_value_snoc: "digits_value (ds @ [d]) = 10 * digits_value ds + (d - 48)"
  by (simp add: digits_value_def)

lemma digits_value_nat_digits: "digits_value (nat_digits n) = n"
proof (induction n rule: nat_digits.induct)
  case (1 n)
  show ?case
  proof (cases "n < 10")
    case True
    then show ?thesis by (simp add: nat_digits.simps [of n] digits_value_def)
  next
    case False
    with 1 show ?thesis by (simp add: nat_digits.simps [of n] digits_value_snoc)
  qed
qed

lemma digits_value_hundredths:
  "digits_value (nat_digits (q div 100) @ [48 + q div 10 mod 10, 48 + q mod 10]) = q"
proof -
  have "digits_value ((nat_digits (q div 100) @ [48 + q div 10 mod 10]) @ [48 + q mod 10])
      = 10 * (10 * (q div 100) + q div 10 mod 10) + q mod 10"
    by (simp only: digits_value_snoc digits_value_nat_digits add_diff_cancel_left')
  moreover have "q div 100 = q div 10 div 10"
    by (simp add: div_mult2_eq)
  moreover have "10 * (q div 10 div 10) + q div 10 mod 10 = q div 10"
    by simp
  moreover have "10 * (q div 10) + q mod 10 = q"
    by simp
  ultimately show ?thesis by simp
qed

subsection \<open>Percent-encoding\<close>

text \<open>
  \<^verbatim>\<open>quote_plus\<close> leaves a string of letters, digits and \<open>_.-~\<close> as it is, and its
  result never holds \<open>&\<close> or \<open>=\<close>, the separators of a query string.
\<close>

lemma quote_plus_eq:
  "quote_plus s = (if list_all encodable s then Inr (quoted s) else Inl UnicodeEncodeError)"
  by (simp add: quote_plus_def encode_eq quoted_def)

lemma quoted_safe_char: "always_safe c \<Longrightarrow> concat (map quote_byte (utf8_char c)) = [c]"
proof -
  assume a: "always_safe c"
  then have c: "c < 128" by (auto simp: always_safe_def)
  then have u: "unat (of_nat c :: byte) = c"
    by (simp add: unat_of_nat)
  show ?thesis using a c u by (simp add: utf8_char_def quote_byte_def)
qed

lemma quoted_safe: "list_all always_safe s \<Longrightarrow> quoted s = s"
  by (induction s) (simp_all add: quoted_def utf8_def quoted_safe_char)

lemma quote_plus_safe: "list_all always_safe s \<Longrightarrow> quote_plus s = Inr s"
  by (simp add: quote_plus_eq quoted_safe safe_encodable)

lemma upper_hex_digit_range:
  "n < 16 \<Longrightarrow> upper_hex_digit n \<noteq> 38 \<and> upper_hex_digit n \<noteq> 61"
  by (auto simp: upper_hex_digit_def)

lemma quote_byte_no_separator: "list_all (\<lambda>x. x \<noteq> 38 \<and> x \<noteq> 61) (quote_byte b)"
proof -
  have "unat b < 2 ^ LENGTH(8)" by (rule unsigned_less)
  then have "unat b div 16 < 16" "unat b mod 16 < 16" by simp_all
  then have u: "upper_hex_digit (unat b div 16) \<noteq> 38 \<and> upper_hex_digit (unat b div 16) \<noteq> 61"
      "upper_hex_digit (unat b mod 16) \<noteq> 38 \<and> upper_hex_digit (unat b mod 16) \<noteq> 61"
    by (simp_all add: upper_hex_digit_range)
  have s: "always_safe (unat b) \<Longrightarrow> unat b \<noteq> 38 \<and> unat b \<noteq> 61"
    by (auto simp: always_safe_def)
  show ?thesis
    using u s by (simp add: quote_byte_def str_def)
qed

lemma quoted_no_separator: "list_all (\<lambda>x. x \<noteq> 38 \<and> x \<noteq> 61) (quoted s)"
proof -
  have "list_all (\<lambda>x. x \<noteq> 38 \<and> x \<noteq> 61) (concat (map quote_byte bs))" for bs
    by (induction bs) (simp_all add: quote_byte_no_separator)
  then show ?thesis by (simp add: quoted_def)
qed

lemma safe_no_separator: "list_all always_safe s \<Longrightarrow> list_all (\<lambda>x. x \<noteq> 38 \<and> x \<noteq> 61) s"
  by (erule list_all_imp) (auto simp: always_safe_def)

subsection \<open>Rounding to two places\<close>

text \<open>
  Under \<^verbatim>\<open>ROUND_HALF_EVEN\<close>, dropping digits moves the value by at most half a unit of
  the last digit kept, and by exactly half a unit only to an even digit.
\<close>

lemma half_even_near:
  fixes c p v :: nat
  assumes "0 < p"
    and v_def: "v = (if goes_up ROUND_HALF_EVEN neg (c div p) (c mod p) p then c div p + 1
                     else c div p)"
  shows "2 * \<bar>int v * int p - int c\<bar> \<le> int p
    \<and> (2 * \<bar>int v * int p - int c\<bar> = int p \<longrightarrow> even v)"
proof -
  define q r where "q = c div p" and "r = c mod p"
  have c: "int c = int q * int p + int r"
    unfolding q_def r_def by (metis of_nat_add of_nat_mult div_mult_mod_eq)
  have r: "r < p" unfolding r_def using assms(1) by simp
  have e: "v = (if p < 2 * r \<or> (2 * r = p \<and> odd q) then q + 1 else q)"
    by (simp add: v_def q_def r_def)
  show ?thesis
  proof (cases "p < 2 * r \<or> (2 * r = p \<and> odd q)")
    case True
    then have v: "v = q + 1" by (simp add: e)
    have d: "int (q + 1) * int p - int c = int p - int r"
      by (simp add: c algebra_simps)
    have a: "\<bar>int p - int r\<bar> = int p - int r" using r by simp
    from True have "p \<le> 2 * r" by auto
    then have "int p \<le> int (2 * r)" by (simp only: of_nat_le_iff)
    then have le: "2 * (int p - int r) \<le> int p" by simp
    have "even (q + 1)" if "2 * (int p - int r) = int p"
    proof -
      from that have "int (2 * r) = int p" by simp
      then have "2 * r = p" by (simp only: of_nat_eq_iff)
      with True have "odd q" by auto
      then show ?thesis by simp
    qed
    then show ?thesis
      unfolding v d a using le by blast
  next
    case False
    then have v: "v = q" by (simp add: e)
    have d: "int q * int p - int c = - int r"
      by (simp add: c)
    have a: "\<bar>- int r\<bar> = int r" by simp
    from False have "2 * r \<le> p" by auto
    then have "int (2 * r) \<le> int p" by (simp only: of_nat_le_iff)
    then have le: "2 * int r \<le> int p" by simp
    have "even q" if "2 * int r = int p"
    proof -
      from that have "int (2 * r) = int p" by simp
      then have "2 * r = p" by (simp only: of_nat_eq_iff)
      with False show ?thesis by auto
    qed
    then show ?thesis
      unfolding v d a using le by blast
  qed
qed

lemma pow10_high: "- 2 \<le> e \<Longrightarrow> pow10 e = 10 ^ nat (e + 2) / 100"
proof -
  assume a: "- 2 \<le> e"
  show ?thesis
  proof (cases "0 \<le> e")
    case True
    then have "nat (e + 2) = nat e + 2" by simp
    then show ?thesis using True by (simp add: pow10_def power_add)
  next
    case False
    with a have "e = - 1 \<or> e = - 2" by linarith
    then show ?thesis by (auto simp: pow10_def)
  qed
qed

lemma pow10_low: "e < - 2 \<Longrightarrow> pow10 e = 1 / (100 * 10 ^ nat (- 2 - e))"
proof -
  assume a: "e < - 2"
  then have "nat (- e) = nat (- 2 - e) + 2" by simp
  then show ?thesis using a by (simp add: pow10_def power_add)
qed

lemma rescale_exact: "- 2 \<le> e \<Longrightarrow> real (rescale mode neg c e) / 100 = magnitude c e"
  by (simp add: rescale_def magnitude_def pow10_high)

lemma rescale_near:
  "\<bar>real (rescale ROUND_HALF_EVEN neg c e) / 100 - magnitude c e\<bar> \<le> 1 / 200
   \<and> (\<bar>real (rescale ROUND_HALF_EVEN neg c e) / 100 - magnitude c e\<bar> = 1 / 200
        \<longrightarrow> even (rescale ROUND_HALF_EVEN neg c e))"
proof (cases "- 2 \<le> e")
  case True
  then show ?thesis by (simp add: rescale_exact)
next
  case False
  define p :: nat where "p = 10 ^ nat (- 2 - e)"
  define q where "q = (if goes_up ROUND_HALF_EVEN neg (c div p) (c mod p) p then c div p + 1
                       else c div p)"
  define d where "d = int q * int p - int c"
  have p: "0 < p" by (simp add: p_def)
  have q: "rescale ROUND_HALF_EVEN neg c e = q"
    using False by (simp add: rescale_def Let_def q_def p_def)
  have m: "magnitude c e = real c / (100 * real p)"
    using False by (simp add: magnitude_def pow10_low p_def)
  have dr: "real_of_int d = real q * real p - real c"
    by (simp add: d_def)
  have "real q / 100 - real c / (100 * real p) = (real q * real p - real c) / (100 * real p)"
    using p by (simp add: field_simps)
  then have diff: "\<bar>real q / 100 - magnitude c e\<bar> = \<bar>real_of_int d\<bar> / (100 * real p)"
    by (simp add: m dr)
  from half_even_near [OF p q_def]
  have b: "2 * \<bar>d\<bar> \<le> int p" and t: "2 * \<bar>d\<bar> = int p \<Longrightarrow> even q"
    by (simp_all add: d_def)
  have "real_of_int (2 * \<bar>d\<bar>) \<le> real_of_int (int p)"
    using b by (simp only: of_int_le_iff)
  then have br: "2 * \<bar>real_of_int d\<bar> \<le> real p" by simp
  have le: "\<bar>real_of_int d\<bar> / (100 * real p) \<le> 1 / 200"
    using br p by (simp add: field_simps)
  have tie: "even q" if "\<bar>real_of_int d\<bar> / (100 * real p) = 1 / 200"
  proof -
    from that p have "2 * \<bar>real_of_int d\<bar> = real p" by (simp add: field_simps)
    then have "real_of_int (2 * \<bar>d\<bar>) = real_of_int (int p)" by simp
    then have "2 * \<bar>d\<bar> = int p" by (simp only: of_int_eq_iff)
    then show ?thesis by (rule t)
  qed
  show ?thesis
    unfolding q diff using le tie by blast
qed

lemma format_2f_rounded:
  "format_2f mode' (Finite neg (rescale mode neg c e) (- 2)) = format_2f mode (Finite neg c e)"
  by (simp add: format_2f.simps rescale_def [of _ _ _ "- 2"])

lemma format_2f_exact:
  "- 2 \<le> e \<Longrightarrow> format_2f mode' (Finite neg c e) = format_2f mode (Finite neg c e)"
  by (simp add: format_2f.simps rescale_def)

lemma format_2f_special:
  "format_2f mode' (Infinity neg) = format_2f mode (Infinity neg)"
  "format_2f mode' (NaN neg p) = format_2f mode (NaN neg p)"
  "format_2f mode' (sNaN neg p) = format_2f mode (sNaN neg p)"
  by (simp_all add: format_2f.simps)

lemma format_2f_unrounded:
  "needs_no_rounding a \<Longrightarrow> format_2f mode' a = format_2f mode a"
  by (cases a) (simp_all add: format_2f_exact format_2f_special)

subsection \<open>The module's instance\<close>

lemma client_fields:
  "merchant_id client = 66058"
  "secret1 client = str ''2aJ0hR?0Z-[=VJ6''"
  "secret2 client = str ''Hs)D3l&hb4(?xFf''"
  "api_key client = Some (str ''962c879ce9be06f9d34a556872869220'')"
  "api_url client = default_api_url"
  "ui_url client = default_ui_url"
  "nonce client = 1"
  by (simp_all add: client_def init_def Let_def)

subsection \<open>Construction\<close>

text \<open>
  The operations read the base URLs from the client and never change them: every request
  of an API call goes to the API base URL of the client, and every checkout URL starts
  with its UI base URL.
\<close>

lemma api_create_order_request_url:
  "snd (api_create_order rt srv self n i user_email user_ip payment_id amount currency net) = net
   \<or> (\<exists>r. snd (api_create_order rt srv self n i user_email user_ip payment_id amount currency net)
              = net @ [r]
          \<and> req_url r = api_url self @ str ''orders/create'')"
  by (simp add: api_create_order_def requests_post_def Let_def
      split: option.split sum.split)

lemma api_get_order_request_url:
  "snd (api_get_order rt srv self payment_id net) = net
   \<or> (\<exists>r. snd (api_get_order rt srv self payment_id net) = net @ [r]
          \<and> req_url r = api_url self @ str ''orders'')"
  by (simp add: api_get_order_def requests_post_def Let_def
      split: option.split sum.split)

lemma ui_create_order_prefix:
  "ui_create_order rt self amount currency payment_id payment_method_id = Inr url
   \<Longrightarrow> \<exists>query. url = ui_url self @ str ''?'' @ query"
  by (auto simp: ui_create_order_def Let_def split: sum.splits)

lemma init_urls:
  "api_url (init m s1 s2 k su fu nu api ui n)
     = (case api of None \<Rightarrow> default_api_url | Some u \<Rightarrow> if u = [] then default_api_url else u)"
  "ui_url (init m s1 s2 k su fu nu api ui n)
     = (case ui of None \<Rightarrow> default_ui_url | Some u \<Rightarrow> if u = [] then default_ui_url else u)"
  by (simp_all add: init_def Let_def split: option.split)

text \<open>
  C8 (as amended). A client built without an API base URL or without a UI base URL uses
  \<^verbatim>\<open>https://api.fk.life/v1/\<close> and \<^verbatim>\<open>https://pay.fk.money/\<close>; a base URL that is
  supplied and is not the empty string replaces the corresponding default. Every operation
  on the client then uses these base URLs.
\<close>

theorem init_base_urls:
  "(let self = init m s1 s2 k su fu nu api ui n in
      (api = None \<longrightarrow> api_url self = str ''https://api.fk.life/v1/'')
    \<and> (ui = None \<longrightarrow> ui_url self = str ''https://pay.fk.money/'')
    \<and> (\<forall>u. api = Some u \<and> u \<noteq> [] \<longrightarrow> api_url self = u)
    \<and> (\<forall>u. ui = Some u \<and> u \<noteq> [] \<longrightarrow> ui_url self = u)
    \<and> (snd (api_create_order rt srv self nn i user_email user_ip payment_id amount currency net)
          = net
        \<or> (\<exists>r. snd (api_create_order rt srv self nn i user_email user_ip payment_id amount
                      currency net) = net @ [r]
               \<and> req_url r = api_url self @ str ''orders/create''))
    \<and> (snd (api_get_order rt srv self payment_id net) = net
        \<or> (\<exists>r. snd (api_get_order rt srv self payment_id net) = net @ [r]
               \<and> req_url r = api_url self @ str ''orders''))
    \<and> (\<forall>url. ui_create_order rt self amount currency payment_id payment_method_id = Inr url
          \<longrightarrow> (\<exists>query. url = ui_url self @ str ''?'' @ query)))"
proof -
  define self where "self = init m s1 s2 k su fu nu api ui n"
  have a: "api = None \<longrightarrow> api_url self = str ''https://api.fk.life/v1/''"
    and b: "ui = None \<longrightarrow> ui_url self = str ''https://pay.fk.money/''"
    and c: "\<forall>u. api = Some u \<and> u \<noteq> [] \<longrightarrow> api_url self = u"
    and d: "\<forall>u. ui = Some u \<and> u \<noteq> [] \<longrightarrow> ui_url self = u"
    by (simp_all add: self_def init_urls default_api_url_def default_ui_url_def)
  have e: "\<forall>url. ui_create_order rt self amount currency payment_id payment_method_id = Inr url
          \<longrightarrow> (\<exists>query. url = ui_url self @ str ''?'' @ query)"
    by (blast dest: ui_create_order_prefix)
  from a b c d e
    api_create_order_request_url [of rt srv self nn i user_email user_ip payment_id amount
      currency net]
    api_get_order_request_url [of rt srv self payment_id net]
  show ?thesis
    unfolding Let_def self_def [symmetric] by blast
qed

text \<open>
  A client built with the API base URL \<^verbatim>\<open>http://localhost:8080/api/\<close> and no UI base
  URL.
\<close>

theorem init_base_urls_witness:
  "str ''http://localhost:8080/api/'' \<noteq> []
   \<and> api_url (init 66058 (str ''k1'') (str ''k2'') (Some (str ''key'')) None None None
        (Some (str ''http://localhost:8080/api/'')) None 1) = str ''http://localhost:8080/api/''
   \<and> ui_url (init 66058 (str ''k1'') (str ''k2'') (Some (str ''key'')) None None None
        (Some (str ''http://localhost:8080/api/'')) None 1) = str ''https://pay.fk.money/''
   \<and> (snd (api_get_order sample_rt (\<lambda>net req. Inl (RequestException []))
          (init 66058 (str ''k1'') (str ''k2'') (Some (str ''key'')) None None None
             (Some (str ''http://localhost:8080/api/'')) None 1) (str ''order-1'') []) = []
        \<or> (\<exists>r. snd (api_get_order sample_rt (\<lambda>net req. Inl (RequestException []))
               (init 66058 (str ''k1'') (str ''k2'') (Some (str ''key'')) None None None
                  (Some (str ''http://localhost:8080/api/'')) None 1) (str ''order-1'') []) = [r]
             \<and> req_url r = str ''http://localhost:8080/api/orders''))"
proof -
  define u where "u = str ''http://localhost:8080/api/''"
  define self where "self = init 66058 (str ''k1'') (str ''k2'') (Some (str ''key'')) None None None
        (Some u) None 1"
  have n: "u \<noteq> []" by (simp add: u_def str_def)
  note t = init_base_urls [where m = 66058 and ?s1.0 = "str ''k1''" and ?s2.0 = "str ''k2''"
      and k = "Some (str ''key'')" and su = None and fu = None and nu = None and api = "Some u"
      and ui = None and n = 1 and rt = sample_rt
      and srv = "\<lambda>net req. Inl (RequestException [])" and payment_id = "str ''order-1''"
      and net = "[]", unfolded Let_def, folded self_def]
  from t n have a: "api_url self = u" by blast
  from t have b: "ui_url self = str ''https://pay.fk.money/''" by blast
  from t have "snd (api_get_order sample_rt (\<lambda>net req. Inl (RequestException [])) self
          (str ''order-1'') []) = []
        \<or> (\<exists>r. snd (api_get_order sample_rt (\<lambda>net req. Inl (RequestException [])) self
               (str ''order-1'') []) = [] @ [r]
             \<and> req_url r = api_url self @ str ''orders'')"
    by blast
  moreover have "u @ str ''orders'' = str ''http://localhost:8080/api/orders''"
    by (simp add: u_def str_def)
  ultimately have c: "snd (api_get_order sample_rt (\<lambda>net req. Inl (RequestException [])) self
          (str ''order-1'') []) = []
        \<or> (\<exists>r. snd (api_get_order sample_rt (\<lambda>net req. Inl (RequestException [])) self
               (str ''order-1'') []) = [r]
             \<and> req_url r = str ''http://localhost:8080/api/orders'')"
    by (simp add: a)
  from n a b c show ?thesis
    unfolding self_def u_def by blast
qed

text \<open>
  The claim as stated (a supplied base URL overrides the default) fails for the empty
  string: it is supplied, and the client still uses the default host.
\<close>

theorem init_empty_url_not_used:
  "api_url (init 66058 (str ''k1'') (str ''k2'') None None None None (Some []) None 1)
     = str ''https://api.fk.life/v1/''
   \<and> api_url (init 66058 (str ''k1'') (str ''k2'') None None None None (Some []) None 1) \<noteq> []"
  by (simp add: init_def Let_def default_api_url_def str_def)

text \<open>
  C10. An empty string given as \<^verbatim>\<open>api_url\<close> or as \<^verbatim>\<open>ui_url\<close> builds the very client
  that the absent argument builds, with the default host.
\<close>

theorem init_empty_url_is_absent:
  "init m s1 s2 k su fu nu (Some []) ui n = init m s1 s2 k su fu nu None ui n
   \<and> init m s1 s2 k su fu nu api (Some []) n = init m s1 s2 k su fu nu api None n
   \<and> api_url (init m s1 s2 k su fu nu (Some []) ui n) = str ''https://api.fk.life/v1/''
   \<and> ui_url (init m s1 s2 k su fu nu api (Some []) n) = str ''https://pay.fk.money/''"
  by (simp add: init_def Let_def default_api_url_def default_ui_url_def split: option.split)

subsection \<open>verify\_notify\<close>

text \<open>
  C1 (as amended). \<^verbatim>\<open>verify_notify\<close> joins the merchant id, the amount exactly as
  received, the second secret and the order id with colons. When that string can be
  encoded as UTF-8 (no lone surrogate in it), the call returns a boolean: true if and only
  if the lowercased hexadecimal MD5 digest of the string equals the lowercased signature.
  When the string holds a lone surrogate, the call raises \<^verbatim>\<open>UnicodeEncodeError\<close>
  instead of returning false.
\<close>

theorem verify_notify_result:
  "verify_notify rt self amount order_id sign =
     (if list_all encodable (notify_sign_str self amount order_id)
      then Inr (lower rt (hexdigest (md5_digest rt (utf8
                  (str_int (merchant_id self) @ str '':'' @ amount @ str '':'' @ secret2 self
                     @ str '':'' @ order_id))))
                = lower rt sign)
      else Inl UnicodeEncodeError)"
  by (simp add: verify_notify_def md5hex_def encode_eq notify_sign_str_def)

text \<open>
  The notification vector of the module's own instance: the signed string is
  \<^verbatim>\<open>66058:100.00:Hs)D3l&hb4(?xFf:order-1\<close>, whatever the library's digest is.
\<close>

theorem verify_notify_result_witness:
  "\<forall>rt :: 'j runtime. \<forall>sign.
     verify_notify rt client (str ''100.00'') (str ''order-1'') sign =
       Inr (lower rt (hexdigest (md5_digest rt (utf8 (str ''66058:100.00:Hs)D3l&hb4(?xFf:order-1''))))
            = lower rt sign)"
proof (intro allI)
  fix rt :: "'j runtime" and sign
  show "verify_notify rt client (str ''100.00'') (str ''order-1'') sign =
       Inr (lower rt (hexdigest (md5_digest rt (utf8 (str ''66058:100.00:Hs)D3l&hb4(?xFf:order-1''))))
            = lower rt sign)"
    using verify_notify_result [of rt client "str ''100.00''" "str ''order-1''" sign]
    by (simp add: notify_sign_str_def client_fields str_int_def nat_digits.simps str_def
        encodable_def)
qed

text \<open>
  The claim as stated (a boolean for every amount string, never an error) fails when the
  amount holds the lone surrogate U+D800.
\<close>

theorem verify_notify_surrogate:
  "verify_notify sample_rt client [0xD800] (str ''order-1'') (str ''0f'') = Inl UnicodeEncodeError"
  by (simp add: verify_notify_def md5hex_def encode_eq notify_sign_str_def encodable_def)

subsection \<open>ui\_create\_order\<close>

lemma quote_plus_key:
  "quote_plus (str ''m'') = Inr (str ''m'')" "quote_plus (str ''oa'') = Inr (str ''oa'')"
  "quote_plus (str ''currency'') = Inr (str ''currency'')" "quote_plus (str ''o'') = Inr (str ''o'')"
  "quote_plus (str ''s'') = Inr (str ''s'')" "quote_plus (str ''i'') = Inr (str ''i'')"
  by (rule quote_plus_safe, simp add: str_def always_safe_def)+

lemma urlencode_ui_payload:
  assumes "list_all encodable currency" and "list_all encodable payment_id"
  shows "urlencode (ui_payload self
        (format_2f (context_rounding rt) amount) currency payment_id (hexdigest bs) pmid) =
     Inr (str ''m='' @ str_int (merchant_id self) @ str ''&oa='' @ format_2f (context_rounding rt) amount
          @ str ''&currency='' @ quoted currency @ str ''&o='' @ quoted payment_id
          @ str ''&s='' @ hexdigest bs @ str ''&i='' @ str_int pmid)"
proof -
  have c: "quote_plus currency = Inr (quoted currency)"
    and p: "quote_plus payment_id = Inr (quoted payment_id)"
    using assms by (simp_all add: quote_plus_eq)
  have "urlencode (ui_payload self
        (format_2f (context_rounding rt) amount) currency payment_id (hexdigest bs) pmid) =
     Inr (join (str ''&'')
       [str ''m'' @ str ''='' @ str_int (merchant_id self),
        str ''oa'' @ str ''='' @ format_2f (context_rounding rt) amount,
        str ''currency'' @ str ''='' @ quoted currency,
        str ''o'' @ str ''='' @ quoted payment_id,
        str ''s'' @ str ''='' @ hexdigest bs,
        str ''i'' @ str ''='' @ str_int pmid])"
    by (simp add: urlencode_def ui_payload_def quote_plus_key c p
        quote_plus_safe [OF safe_str_int] quote_plus_safe [OF safe_format_2f]
        quote_plus_safe [OF safe_hexdigest])
  then show ?thesis by (simp add: str_def)
qed

lemma encodable_ui_sign_str:
  "list_all encodable (ui_sign_str self
        (format_2f (context_rounding rt) amount) currency payment_id)
     = (list_all encodable (secret1 self) \<and> list_all encodable currency
        \<and> list_all encodable payment_id)"
  by (auto simp: ui_sign_str_def safe_encodable [OF safe_format_2f]
      safe_encodable [OF safe_str_int] str_def encodable_def)

lemma ui_create_order_eq:
  "ui_create_order rt self amount currency payment_id pmid =
     (if list_all encodable (secret1 self) \<and> list_all encodable currency
         \<and> list_all encodable payment_id
      then Inr (ui_url self @ str ''?'' @ str ''m='' @ str_int (merchant_id self) @ str ''&oa=''
          @ format_2f (context_rounding rt) amount @ str ''&currency='' @ quoted currency @ str ''&o=''
          @ quoted payment_id @ str ''&s=''
          @ hexdigest (md5_digest rt (utf8 (ui_sign_str self
                (format_2f (context_rounding rt) amount) currency payment_id)))
          @ str ''&i='' @ str_int pmid)
      else Inl UnicodeEncodeError)"
  by (simp add: ui_create_order_def Let_def md5hex_eq encodable_ui_sign_str urlencode_ui_payload)

lemma ui_create_order_amount:
  "format_2f (context_rounding rt) a = format_2f (context_rounding rt) b \<Longrightarrow>
   ui_create_order rt self a currency payment_id pmid
     = ui_create_order rt self b currency payment_id pmid"
  by (simp add: ui_create_order_def)

text \<open>
  C3. For a first secret, a currency and a payment id that can be encoded as UTF-8,
  \<^verbatim>\<open>ui_create_order\<close> signs the colon-joined string of the merchant id, the amount
  formatted to two places, the first secret, the currency and the payment id with the
  hexadecimal MD5 digest, and returns the UI base URL, \<open>?\<close> and the percent-encoded
  parameters \<open>m\<close>, \<open>oa\<close>, \<open>currency\<close>, \<open>o\<close>, \<open>s\<close>, \<open>i\<close> joined with \<open>&\<close>.
\<close>

theorem ui_create_order_url:
  assumes "list_all encodable (secret1 self)" and "list_all encodable currency"
    and "list_all encodable payment_id"
  shows
    "(let amount_str = format_2f (context_rounding rt) amount;
          sign_str = join (str '':'')
            [str_int (merchant_id self), amount_str, secret1 self, currency, payment_id];
          signature = hexdigest (md5_digest rt (utf8 sign_str))
      in ui_create_order rt self amount currency payment_id payment_method_id =
           Inr (ui_url self @ str ''?'' @ join (str ''&'')
             [str ''m='' @ quoted (str_int (merchant_id self)),
              str ''oa='' @ quoted amount_str,
              str ''currency='' @ quoted currency,
              str ''o='' @ quoted payment_id,
              str ''s='' @ quoted signature,
              str ''i='' @ quoted (str_int payment_method_id)]))"
proof -
  have j: "join (str '':'')
            [str_int (merchant_id self), format_2f (context_rounding rt) amount,
                  secret1 self, currency, payment_id]
           = ui_sign_str self (format_2f (context_rounding rt) amount) currency payment_id"
    by (simp add: ui_sign_str_def)
  have q: "quoted (str_int (merchant_id self)) = str_int (merchant_id self)"
      "quoted (format_2f (context_rounding rt) amount) = format_2f (context_rounding rt) amount"
      "quoted (hexdigest (md5_digest rt (utf8 (ui_sign_str self
            (format_2f (context_rounding rt) amount) currency
          payment_id))))
        = hexdigest (md5_digest rt (utf8 (ui_sign_str self
              (format_2f (context_rounding rt) amount) currency
          payment_id)))"
      "quoted (str_int payment_method_id) = str_int payment_method_id"
    by (simp_all add: quoted_safe safe_str_int safe_format_2f safe_hexdigest)
  show ?thesis
    unfolding Let_def j q
    using assms by (simp add: ui_create_order_eq str_def)
qed

text \<open>
  The known vector of the module's instance: amount 100.00, currency RUB, payment id
  order-1, payment method 4.
\<close>

theorem ui_create_order_url_witness:
  "\<forall>rt :: 'j runtime.
     ui_create_order rt client (Finite False 10000 (- 2)) (str ''RUB'') (str ''order-1'') 4 =
       Inr (str ''https://pay.fk.money/?m=66058&oa=100.00&currency=RUB&o=order-1&s=''
            @ hexdigest (md5_digest rt (utf8 (str ''66058:100.00:2aJ0hR?0Z-[=VJ6:RUB:order-1'')))
            @ str ''&i=4'')"
proof (intro allI)
  fix rt :: "'j runtime"
  have f: "format_2f (context_rounding rt) (Finite False 10000 (- 2)) = str ''100.00''"
    by (simp add: format_2f.simps Let_def rescale_def minus_sign_def nat_digits.simps str_def)
  have h: "list_all encodable (secret1 client)" "list_all encodable (str ''RUB'')"
      "list_all encodable (str ''order-1'')"
    by (simp_all add: client_fields str_def encodable_def)
  have s: "join (str '':'')
      [str_int (merchant_id client), str ''100.00'', secret1 client, str ''RUB'', str ''order-1'']
      = str ''66058:100.00:2aJ0hR?0Z-[=VJ6:RUB:order-1''"
    by (simp add: client_fields str_int_def nat_digits.simps str_def)
  have q: "quoted (str ''RUB'') = str ''RUB''" "quoted (str ''order-1'') = str ''order-1''"
      "quoted (str ''100.00'') = str ''100.00''"
    by (rule quoted_safe, simp add: str_def always_safe_def)+
  have m: "quoted (str_int (merchant_id client)) = str ''66058''" "quoted (str_int 4) = str ''4''"
    by (simp_all add: quoted_safe safe_str_int)
      (simp_all add: client_fields str_int_def nat_digits.simps str_def)
  show "ui_create_order rt client (Finite False 10000 (- 2)) (str ''RUB'') (str ''order-1'') 4 =
       Inr (str ''https://pay.fk.money/?m=66058&oa=100.00&currency=RUB&o=order-1&s=''
            @ hexdigest (md5_digest rt (utf8 (str ''66058:100.00:2aJ0hR?0Z-[=VJ6:RUB:order-1'')))
            @ str ''&i=4'')"
    using ui_create_order_url [OF h, where rt = rt and amount = "Finite False 10000 (- 2)"
          and payment_method_id = 4]
    unfolding Let_def f s q m
    by (simp add: quoted_safe safe_hexdigest client_fields default_ui_url_def str_def)
qed

text \<open>
  C9 (as amended). The result of \<^verbatim>\<open>ui_create_order\<close> is a function of its arguments,
  of the merchant id, the first secret and the UI base URL of the client, of the digest,
  and of the rounding mode of the decimal context where the amount has to be rounded: two
  calls that agree on these return the same signature and the same URL, whatever the other
  fields of the client are. For an amount with at most two fraction digits the rounding
  mode plays no part. The query string lists the parameters in the order
  \<open>m, oa, currency, o, s, i\<close>, and no value in it holds \<open>&\<close> or \<open>=\<close>, so the string
  reads back in one way only.
\<close>

theorem ui_create_order_deterministic:
  assumes "merchant_id self' = merchant_id self" and "secret1 self' = secret1 self"
    and "ui_url self' = ui_url self" and "md5_digest rt' = md5_digest rt"
    and "context_rounding rt' = context_rounding rt \<or> needs_no_rounding amount"
    and "list_all encodable (secret1 self)" and "list_all encodable currency"
    and "list_all encodable payment_id"
  shows
    "md5hex rt' (ui_sign_str self' (format_2f (context_rounding rt') amount) currency payment_id)
       = md5hex rt (ui_sign_str self (format_2f (context_rounding rt) amount) currency payment_id)
     \<and> ui_create_order rt' self' amount currency payment_id payment_method_id
       = ui_create_order rt self amount currency payment_id payment_method_id
     \<and> (\<exists>v1 v2 v3 v4 v5 v6.
          ui_create_order rt self amount currency payment_id payment_method_id
            = Inr (ui_url self @ str ''?m='' @ v1 @ str ''&oa='' @ v2 @ str ''&currency='' @ v3
                   @ str ''&o='' @ v4 @ str ''&s='' @ v5 @ str ''&i='' @ v6)
          \<and> list_all (\<lambda>x. x \<noteq> 38 \<and> x \<noteq> 61) (v1 @ v2 @ v3 @ v4 @ v5 @ v6))"
proof (intro conjI)
  have f: "format_2f (context_rounding rt') amount = format_2f (context_rounding rt) amount"
    using assms(5) by (auto simp: format_2f_unrounded)
  show "md5hex rt' (ui_sign_str self' (format_2f (context_rounding rt') amount) currency payment_id)
       = md5hex rt (ui_sign_str self (format_2f (context_rounding rt) amount) currency payment_id)"
    using assms(1-4) f by (simp add: md5hex_def ui_sign_str_def split: sum.split)
  show "ui_create_order rt' self' amount currency payment_id payment_method_id
       = ui_create_order rt self amount currency payment_id payment_method_id"
    using assms(1-4) f by (simp add: ui_create_order_eq ui_sign_str_def)
  let ?sig = "hexdigest (md5_digest rt (utf8 (ui_sign_str self (format_2f (context_rounding rt) amount)
      currency payment_id)))"
  have "ui_create_order rt self amount currency payment_id payment_method_id
      = Inr (ui_url self @ str ''?m='' @ str_int (merchant_id self) @ str ''&oa=''
             @ format_2f (context_rounding rt) amount @ str ''&currency='' @ quoted currency
             @ str ''&o='' @ quoted payment_id @ str ''&s='' @ ?sig @ str ''&i=''
             @ str_int payment_method_id)"
    using assms(6-8) by (simp add: ui_create_order_eq str_def)
  moreover have "list_all (\<lambda>x. x \<noteq> 38 \<and> x \<noteq> 61)
      (str_int (merchant_id self) @ format_2f (context_rounding rt) amount @ quoted currency
         @ quoted payment_id @ ?sig @ str_int payment_method_id)"
    by (simp add: quoted_no_separator safe_no_separator [OF safe_str_int]
        safe_no_separator [OF safe_format_2f] safe_no_separator [OF safe_hexdigest])
  ultimately show "\<exists>v1 v2 v3 v4 v5 v6.
          ui_create_order rt self amount currency payment_id payment_method_id
            = Inr (ui_url self @ str ''?m='' @ v1 @ str ''&oa='' @ v2 @ str ''&currency='' @ v3
                   @ str ''&o='' @ v4 @ str ''&s='' @ v5 @ str ''&i='' @ v6)
          \<and> list_all (\<lambda>x. x \<noteq> 38 \<and> x \<noteq> 61) (v1 @ v2 @ v3 @ v4 @ v5 @ v6)"
    by blast
qed

text \<open>
  Two clients that differ in the API key and the nonce build the same URL: for the amount
  100.00 under two different rounding modes, and for the amount 0.125, which has to be
  rounded, under the same rounding mode.
\<close>

theorem ui_create_order_deterministic_witness:
  "ui_create_order (sample_rt\<lparr>context_rounding := ROUND_UP\<rparr>) (client\<lparr>api_key := None, nonce := 7\<rparr>)
       (Finite False 10000 (- 2)) (str ''RUB'') (str ''order-1'') 4
     = ui_create_order sample_rt client (Finite False 10000 (- 2)) (str ''RUB'') (str ''order-1'') 4
   \<and> ui_create_order sample_rt (client\<lparr>api_key := None, nonce := 7\<rparr>)
       (Finite False 125 (- 3)) (str ''RUB'') (str ''order-1'') 4
     = ui_create_order sample_rt client (Finite False 125 (- 3)) (str ''RUB'') (str ''order-1'') 4
   \<and> (\<exists>v1 v2 v3 v4 v5 v6.
        ui_create_order sample_rt client (Finite False 125 (- 3)) (str ''RUB'') (str ''order-1'') 4
          = Inr (ui_url client @ str ''?m='' @ v1 @ str ''&oa='' @ v2 @ str ''&currency='' @ v3
                 @ str ''&o='' @ v4 @ str ''&s='' @ v5 @ str ''&i='' @ v6)
        \<and> list_all (\<lambda>x. x \<noteq> 38 \<and> x \<noteq> 61) (v1 @ v2 @ v3 @ v4 @ v5 @ v6))"
proof -
  have c: "merchant_id (client\<lparr>api_key := None, nonce := 7\<rparr>) = merchant_id client"
      "secret1 (client\<lparr>api_key := None, nonce := 7\<rparr>) = secret1 client"
      "ui_url (client\<lparr>api_key := None, nonce := 7\<rparr>) = ui_url client"
    by simp_all
  have e: "list_all encodable (secret1 client)" "list_all encodable (str ''RUB'')"
      "list_all encodable (str ''order-1'')"
    by (simp_all add: client_fields str_def encodable_def)
  have d1: "md5_digest (sample_rt\<lparr>context_rounding := ROUND_UP\<rparr>) = md5_digest sample_rt"
    by simp
  have r1: "context_rounding (sample_rt\<lparr>context_rounding := ROUND_UP\<rparr>) = context_rounding sample_rt
       \<or> needs_no_rounding (Finite False 10000 (- 2))"
    by simp
  have d2: "md5_digest sample_rt = md5_digest sample_rt" by simp
  have r2: "context_rounding sample_rt = context_rounding sample_rt
       \<or> needs_no_rounding (Finite False 125 (- 3))"
    by simp
  from ui_create_order_deterministic [OF c d1 r1 e, where payment_method_id = 4]
    ui_create_order_deterministic [OF c d2 r2 e, where payment_method_id = 4]
  show ?thesis by blast
qed

text \<open>
  The claim as stated (the same client and the same inputs always give the same URL)
  fails where the amount has to be rounded: the rounding mode of the decimal context is
  state that the client reads and does not fix. The same client, arguments and digest
  send 0.125 as 0.12 under the default mode and as 0.13 under \<^verbatim>\<open>ROUND_HALF_UP\<close>.
\<close>

theorem ui_create_order_rounding_mode:
  "ui_create_order sample_rt client (Finite False 125 (- 3)) (str ''RUB'') (str ''order-1'') 4
     = Inr (str ''https://pay.fk.money/?m=66058&oa=0.12&currency=RUB&o=order-1&s=''
            @ hexdigest (md5_digest sample_rt (utf8 (str ''66058:0.12:2aJ0hR?0Z-[=VJ6:RUB:order-1'')))
            @ str ''&i=4'')
   \<and> ui_create_order (sample_rt\<lparr>context_rounding := ROUND_HALF_UP\<rparr>) client
       (Finite False 125 (- 3)) (str ''RUB'') (str ''order-1'') 4
     = Inr (str ''https://pay.fk.money/?m=66058&oa=0.13&currency=RUB&o=order-1&s=''
            @ hexdigest (md5_digest sample_rt (utf8 (str ''66058:0.13:2aJ0hR?0Z-[=VJ6:RUB:order-1'')))
            @ str ''&i=4'')
   \<and> ui_create_order sample_rt client (Finite False 125 (- 3)) (str ''RUB'') (str ''order-1'') 4
     \<noteq> ui_create_order (sample_rt\<lparr>context_rounding := ROUND_HALF_UP\<rparr>) client
         (Finite False 125 (- 3)) (str ''RUB'') (str ''order-1'') 4"
proof -
  have h: "list_all encodable (secret1 client)" "list_all encodable (str ''RUB'')"
      "list_all encodable (str ''order-1'')"
    by (simp_all add: client_fields str_def encodable_def)
  have f: "format_2f (context_rounding sample_rt) (Finite False 125 (- 3)) = str ''0.12''"
      "format_2f (context_rounding (sample_rt\<lparr>context_rounding := ROUND_HALF_UP\<rparr>))
         (Finite False 125 (- 3)) = str ''0.13''"
    by (simp_all add: sample_rt_def format_2f.simps Let_def rescale_def minus_sign_def
        nat_digits.simps str_def)
  have q: "quoted (str ''RUB'') = str ''RUB''" "quoted (str ''order-1'') = str ''order-1''"
    by (rule quoted_safe, simp add: str_def always_safe_def)+
  have m: "str_int (merchant_id client) = str ''66058''" "str_int 4 = str ''4''"
    by (simp_all add: client_fields str_int_def nat_digits.simps str_def)
  have d: "md5_digest (sample_rt\<lparr>context_rounding := ROUND_HALF_UP\<rparr>) = md5_digest sample_rt"
    by simp
  have a: "ui_create_order sample_rt client (Finite False 125 (- 3)) (str ''RUB'') (str ''order-1'') 4
     = Inr (str ''https://pay.fk.money/?m=66058&oa=0.12&currency=RUB&o=order-1&s=''
            @ hexdigest (md5_digest sample_rt (utf8 (str ''66058:0.12:2aJ0hR?0Z-[=VJ6:RUB:order-1'')))
            @ str ''&i=4'')"
    using h unfolding ui_create_order_eq f q m d ui_sign_str_def
    by (simp add: client_fields default_ui_url_def str_def)
  have b: "ui_create_order (sample_rt\<lparr>context_rounding := ROUND_HALF_UP\<rparr>) client
       (Finite False 125 (- 3)) (str ''RUB'') (str ''order-1'') 4
     = Inr (str ''https://pay.fk.money/?m=66058&oa=0.13&currency=RUB&o=order-1&s=''
            @ hexdigest (md5_digest sample_rt (utf8 (str ''66058:0.13:2aJ0hR?0Z-[=VJ6:RUB:order-1'')))
            @ str ''&i=4'')"
    using h unfolding ui_create_order_eq f q m d ui_sign_str_def
    by (simp add: client_fields default_ui_url_def str_def)
  have n: "ui_create_order sample_rt client (Finite False 125 (- 3)) (str ''RUB'') (str ''order-1'') 4
     \<noteq> ui_create_order (sample_rt\<lparr>context_rounding := ROUND_HALF_UP\<rparr>) client
         (Finite False 125 (- 3)) (str ''RUB'') (str ''order-1'') 4"
    unfolding a b by (simp add: str_def)
  from a b n show ?thesis by blast
qed

subsection \<open>The API calls without an API key\<close>

text \<open>
  C4. A client without an API key (\<^verbatim>\<open>None\<close>, or the empty string) fails in both API
  calls with \<^verbatim>\<open>RuntimeError('API key is not set')\<close>, the configuration error of the
  client, whatever the transport is; no request is made and the network is as before.
\<close>

theorem api_calls_without_key:
  assumes "api_key self = None \<or> api_key self = Some []"
  shows "api_create_order rt srv self n i user_email user_ip payment_id amount currency net
           = (Inl (RuntimeError (str ''API key is not set'')), net)
         \<and> api_get_order rt srv self payment_id net
           = (Inl (RuntimeError (str ''API key is not set'')), net)"
  using assms by (auto simp: api_create_order_def api_get_order_def api_key_error_def)

theorem api_calls_without_key_witness:
  "api_key (client\<lparr>api_key := None\<rparr>) = None
   \<and> (\<forall>(rt :: 'j runtime) srv net.
        api_create_order rt srv (client\<lparr>api_key := None\<rparr>) 1 4 (str ''a@b.c'') (str ''127.0.0.1'')
            (str ''order-1'') (Finite False 10000 (- 2)) (str ''RUB'') net
          = (Inl (RuntimeError (str ''API key is not set'')), net)
        \<and> api_get_order rt srv (client\<lparr>api_key := None\<rparr>) (str ''order-1'') net
          = (Inl (RuntimeError (str ''API key is not set'')), net))"
proof -
  have h: "api_key (client\<lparr>api_key := None\<rparr>) = None \<or> api_key (client\<lparr>api_key := None\<rparr>) = Some []"
    by simp
  have "api_create_order rt srv (client\<lparr>api_key := None\<rparr>) 1 4 (str ''a@b.c'')
            (str ''127.0.0.1'') (str ''order-1'') (Finite False 10000 (- 2)) (str ''RUB'') net
          = (Inl (RuntimeError (str ''API key is not set'')), net)
        \<and> api_get_order rt srv (client\<lparr>api_key := None\<rparr>) (str ''order-1'') net
          = (Inl (RuntimeError (str ''API key is not set'')), net)"
    for rt :: "'j runtime" and srv net
    by (rule api_calls_without_key [OF h])
  then show ?thesis by simp
qed

subsection \<open>The API calls with an API key\<close>

text \<open>
  With an API key and strings that can be encoded, each call signs its payload, adds the
  signature under the key \<open>signature\<close>, makes one request and hands back what the
  transport and the response give.
\<close>

lemma sorted_keys_create:
  "sort (dict_keys (api_create_payload (context_rounding rt) self n i user_email
        user_ip payment_id amount currency)) =
     map str [''amount'', ''currency'', ''email'', ''i'', ''ip'', ''nonce'', ''paymentId'', ''shopId'']"
  by (simp add: api_create_payload_def dict_keys_def str_def)

lemma sign_message_create:
  "sign_message (api_create_payload (context_rounding rt) self n i user_email
        user_ip payment_id amount currency) =
     Inr (spec_create_message self n i user_email user_ip payment_id
            (format_2f (context_rounding rt) amount) currency)"
  by (simp add: sign_message_def api_create_payload_def dict_keys_def spec_create_message_def
      str_def)

lemma sorted_keys_get:
  "sort (dict_keys (api_get_payload self payment_id)) = map str [''nonce'', ''paymentId'', ''shopId'']"
  by (simp add: api_get_payload_def dict_keys_def str_def)

lemma sign_message_get:
  "sign_message (api_get_payload self payment_id) = Inr (spec_get_message self payment_id)"
  by (simp add: sign_message_def api_get_payload_def dict_keys_def spec_get_message_def str_def)

lemma encodable_create_message:
  assumes "list_all encodable currency" "list_all encodable user_email"
    "list_all encodable user_ip" "list_all encodable payment_id"
  shows "list_all encodable (spec_create_message self n i user_email user_ip payment_id
            (format_2f (context_rounding rt) amount) currency)"
  using assms
  by (simp add: spec_create_message_def safe_encodable [OF safe_format_2f]
      safe_encodable [OF safe_str_int] str_def encodable_def)

lemma encodable_get_message:
  assumes "list_all encodable payment_id"
  shows "list_all encodable (spec_get_message self payment_id)"
  using assms
  by (simp add: spec_get_message_def safe_encodable [OF safe_str_int] str_def encodable_def)

lemma dict_set_create:
  "dict_set (api_create_payload (context_rounding rt) self n i user_email
        user_ip payment_id amount currency)
     (str ''signature'') v =
   api_create_payload (context_rounding rt) self n i user_email
         user_ip payment_id amount currency @ [(str ''signature'', v)]"
  by (simp add: api_create_payload_def str_def)

lemma dict_set_get:
  "dict_set (api_get_payload self payment_id) (str ''signature'') v =
   api_get_payload self payment_id @ [(str ''signature'', v)]"
  by (simp add: api_get_payload_def str_def)

lemma api_create_order_keyed:
  assumes "api_key self = Some key" "key \<noteq> []" "list_all encodable key"
    and "list_all encodable currency" "list_all encodable user_email"
    and "list_all encodable user_ip" "list_all encodable payment_id"
  shows "api_create_order rt srv self n i user_email user_ip payment_id amount currency net =
     (let req = \<lparr>req_url = api_url self @ str ''orders/create'',
                 req_json = api_create_payload (context_rounding rt) self n i user_email
                       user_ip payment_id amount currency
                   @ [(str ''signature'', PStr (spec_signature rt key
                        (spec_create_message self n i user_email user_ip payment_id
            (format_2f (context_rounding rt) amount) currency)))],
                 req_timeout = 10\<rparr>
      in ((case srv net req of Inl e \<Rightarrow> Inl e | Inr resp \<Rightarrow> response_json rt resp), net @ [req]))"
  using assms
  by (simp add: api_create_order_def sign_message_create hmac_sha256_hex_eq
      encodable_create_message dict_set_create requests_post_def Let_def split: sum.split)

lemma api_get_order_keyed:
  assumes "api_key self = Some key" "key \<noteq> []" "list_all encodable key"
    and "list_all encodable payment_id"
  shows "api_get_order rt srv self payment_id net =
     (let req = \<lparr>req_url = api_url self @ str ''orders'',
                 req_json = api_get_payload self payment_id
                   @ [(str ''signature'', PStr (spec_signature rt key
                        (spec_get_message self payment_id)))],
                 req_timeout = 10\<rparr>
      in ((case srv net req of
             Inl e \<Rightarrow> Inl e
           | Inr resp \<Rightarrow> if 400 \<le> status_code resp \<and> status_code resp < 600
                        then Inl (HTTPError (status_code resp)) else response_json rt resp),
          net @ [req]))"
  using assms
  by (simp add: api_get_order_def sign_message_get hmac_sha256_hex_eq
      encodable_get_message dict_set_get requests_post_def raise_for_status_def Let_def
      split: sum.split)

lemma api_create_order_amount:
  assumes "format_2f (context_rounding rt) a = format_2f (context_rounding rt) b"
  shows "api_create_order rt srv self n i user_email user_ip payment_id a currency net
     = api_create_order rt srv self n i user_email user_ip payment_id b currency net"
proof -
  have p: "api_create_payload (context_rounding rt) self n i user_email
        user_ip payment_id a currency
      = api_create_payload (context_rounding rt) self n i user_email user_ip payment_id b currency"
    using assms by (simp add: api_create_payload_def)
  show ?thesis
    unfolding api_create_order_def p by (rule refl)
qed

text \<open>
  C2. In \<^verbatim>\<open>api_create_order\<close> the sorted keys of the payload are \<open>amount, currency,
  email, i, ip, nonce, paymentId, shopId\<close>; the signed message is the values in that
  order, each as a string, joined with \<open>|\<close>; the signature is the hexadecimal
  HMAC-SHA256 of the message under the API key (both as UTF-8). The payload that is
  signed has no key \<open>signature\<close>: the request carries the payload with the signature
  added after it.
\<close>

theorem api_create_order_signature:
  assumes "api_key self = Some key" and "key \<noteq> []" and "list_all encodable key"
    and "list_all encodable currency" and "list_all encodable user_email"
    and "list_all encodable user_ip" and "list_all encodable payment_id"
  shows
    "(let payload = api_create_payload (context_rounding rt) self n i user_email user_ip
                       payment_id amount currency;
          message = join (str ''|'')
            [format_2f (context_rounding rt) amount, currency, user_email, str_int i,
             user_ip, str_int n, payment_id, str_int (merchant_id self)];
          signature = hexdigest (hmac_sha256_digest rt (utf8 key) (utf8 message))
      in sort (dict_keys payload) =
           map str [''amount'', ''currency'', ''email'', ''i'', ''ip'', ''nonce'', ''paymentId'',
                    ''shopId'']
         \<and> str ''signature'' \<notin> set (dict_keys payload)
         \<and> sign_message payload = Inr message
         \<and> hmac_sha256_hex rt message key = Inr signature
         \<and> snd (api_create_order rt srv self n i user_email user_ip payment_id amount currency net)
             = net @ [\<lparr>req_url = api_url self @ str ''orders/create'',
                        req_json = payload @ [(str ''signature'', PStr signature)],
                        req_timeout = 10\<rparr>])"
proof -
  have m: "join (str ''|'')
            [format_2f (context_rounding rt) amount, currency, user_email, str_int i,
             user_ip, str_int n, payment_id, str_int (merchant_id self)]
           = spec_create_message self n i user_email user_ip payment_id
            (format_2f (context_rounding rt) amount) currency"
    by (simp add: spec_create_message_def)
  have e: "list_all encodable
             (spec_create_message self n i user_email user_ip payment_id
            (format_2f (context_rounding rt) amount) currency)"
    using assms by (simp add: encodable_create_message)
  have k: "str ''signature'' \<notin>
             set (dict_keys (api_create_payload (context_rounding rt) self n i user_email
                   user_ip payment_id amount currency))"
    by (simp add: api_create_payload_def dict_keys_def str_def)
  show ?thesis
    unfolding Let_def m
    using assms e k
    by (simp add: sorted_keys_create sign_message_create hmac_sha256_hex_eq spec_signature_def
        api_create_order_keyed [OF assms] Let_def)
qed

theorem api_create_order_signature_witness:
  "\<forall>(rt :: 'j runtime) srv net.
     sign_message (api_create_payload (context_rounding rt) client 1 4 (str ''a@b.c'') (str ''127.0.0.1'')
        (str ''order-1'') (Finite False 10000 (- 2)) (str ''RUB''))
       = Inr (str ''100.00|RUB|a@b.c|4|127.0.0.1|1|order-1|66058'')
     \<and> snd (api_create_order rt srv client 1 4 (str ''a@b.c'') (str ''127.0.0.1'')
              (str ''order-1'') (Finite False 10000 (- 2)) (str ''RUB'') net)
         = net @ [\<lparr>req_url = str ''https://api.fk.life/v1/orders/create'',
                    req_json =
                      [(str ''shopId'', PInt 66058), (str ''nonce'', PInt 1),
                       (str ''amount'', PStr (str ''100.00'')), (str ''currency'', PStr (str ''RUB'')),
                       (str ''paymentId'', PStr (str ''order-1'')),
                       (str ''ip'', PStr (str ''127.0.0.1'')), (str ''email'', PStr (str ''a@b.c'')),
                       (str ''i'', PInt 4),
                       (str ''signature'', PStr (hexdigest (hmac_sha256_digest rt
                          (utf8 (str ''962c879ce9be06f9d34a556872869220''))
                          (utf8 (str ''100.00|RUB|a@b.c|4|127.0.0.1|1|order-1|66058'')))))],
                    req_timeout = 10\<rparr>]"
proof (intro allI)
  fix rt :: "'j runtime" and srv net
  have f: "format_2f (context_rounding rt) (Finite False 10000 (- 2)) = str ''100.00''"
    by (simp add: format_2f.simps Let_def rescale_def minus_sign_def nat_digits.simps str_def)
  have h: "api_key client = Some (str ''962c879ce9be06f9d34a556872869220'')"
      "str ''962c879ce9be06f9d34a556872869220'' \<noteq> []"
      "list_all encodable (str ''962c879ce9be06f9d34a556872869220'')"
      "list_all encodable (str ''RUB'')" "list_all encodable (str ''a@b.c'')"
      "list_all encodable (str ''127.0.0.1'')" "list_all encodable (str ''order-1'')"
    by (simp_all add: client_fields str_def encodable_def)
  show "sign_message (api_create_payload (context_rounding rt) client 1 4 (str ''a@b.c'') (str ''127.0.0.1'')
        (str ''order-1'') (Finite False 10000 (- 2)) (str ''RUB''))
       = Inr (str ''100.00|RUB|a@b.c|4|127.0.0.1|1|order-1|66058'')
     \<and> snd (api_create_order rt srv client 1 4 (str ''a@b.c'') (str ''127.0.0.1'')
              (str ''order-1'') (Finite False 10000 (- 2)) (str ''RUB'') net)
         = net @ [\<lparr>req_url = str ''https://api.fk.life/v1/orders/create'',
                    req_json =
                      [(str ''shopId'', PInt 66058), (str ''nonce'', PInt 1),
                       (str ''amount'', PStr (str ''100.00'')), (str ''currency'', PStr (str ''RUB'')),
                       (str ''paymentId'', PStr (str ''order-1'')),
                       (str ''ip'', PStr (str ''127.0.0.1'')), (str ''email'', PStr (str ''a@b.c'')),
                       (str ''i'', PInt 4),
                       (str ''signature'', PStr (hexdigest (hmac_sha256_digest rt
                          (utf8 (str ''962c879ce9be06f9d34a556872869220''))
                          (utf8 (str ''100.00|RUB|a@b.c|4|127.0.0.1|1|order-1|66058'')))))],
                    req_timeout = 10\<rparr>]"
  proof -
    have msg: "join (str ''|'')
        [format_2f (context_rounding rt) (Finite False 10000 (- 2)), str ''RUB'', str ''a@b.c'', str_int 4,
         str ''127.0.0.1'', str_int 1, str ''order-1'', str_int (merchant_id client)]
        = str ''100.00|RUB|a@b.c|4|127.0.0.1|1|order-1|66058''"
      by (simp add: f client_fields str_int_def nat_digits.simps str_def)
    have pl: "api_create_payload (context_rounding rt) client 1 4 (str ''a@b.c'') (str
          ''127.0.0.1'') (str ''order-1'')
          (Finite False 10000 (- 2)) (str ''RUB'')
        = [(str ''shopId'', PInt 66058), (str ''nonce'', PInt 1),
           (str ''amount'', PStr (str ''100.00'')), (str ''currency'', PStr (str ''RUB'')),
           (str ''paymentId'', PStr (str ''order-1'')),
           (str ''ip'', PStr (str ''127.0.0.1'')), (str ''email'', PStr (str ''a@b.c'')),
           (str ''i'', PInt 4)]"
      by (simp add: api_create_payload_def f client_fields)
    have url: "api_url client @ str ''orders/create'' = str ''https://api.fk.life/v1/orders/create''"
      by (simp add: client_fields default_api_url_def str_def)
    show ?thesis
      using api_create_order_signature [OF h, where rt = rt and srv = srv and net = net
          and n = 1 and i = 4 and amount = "Finite False 10000 (- 2)"]
      unfolding Let_def msg pl url by simp
  qed
qed

text \<open>
  C7. \<^verbatim>\<open>api_get_order\<close> builds the payload with exactly the keys \<open>shopId\<close> (the
  merchant id), \<open>nonce\<close> (the nonce the client was built with) and \<open>paymentId\<close>,
  signs it as create-order does (sorted keys, values joined with \<open>|\<close>, hexadecimal
  HMAC-SHA256 under the API key) and posts it to the API base URL followed by
  \<open>orders\<close>.
\<close>

theorem api_get_order_request:
  assumes "api_key self = Some key" and "key \<noteq> []" and "list_all encodable key"
    and "list_all encodable payment_id"
  shows
    "(let payload = [(str ''shopId'', PInt (merchant_id self)), (str ''nonce'', PInt (nonce self)),
                     (str ''paymentId'', PStr payment_id)];
          message = join (str ''|'') [str_int (nonce self), payment_id, str_int (merchant_id self)];
          signature = hexdigest (hmac_sha256_digest rt (utf8 key) (utf8 message))
      in api_get_payload self payment_id = payload
         \<and> sort (dict_keys payload) = map str [''nonce'', ''paymentId'', ''shopId'']
         \<and> sign_message payload = Inr message
         \<and> hmac_sha256_hex rt message key = Inr signature
         \<and> snd (api_get_order rt srv self payment_id net)
             = net @ [\<lparr>req_url = api_url self @ str ''orders'',
                        req_json = payload @ [(str ''signature'', PStr signature)],
                        req_timeout = 10\<rparr>])"
proof -
  have m: "join (str ''|'') [str_int (nonce self), payment_id, str_int (merchant_id self)]
           = spec_get_message self payment_id"
    by (simp add: spec_get_message_def)
  have p: "[(str ''shopId'', PInt (merchant_id self)), (str ''nonce'', PInt (nonce self)),
            (str ''paymentId'', PStr payment_id)] = api_get_payload self payment_id"
    by (simp add: api_get_payload_def)
  have e: "list_all encodable (spec_get_message self payment_id)"
    using assms by (simp add: encodable_get_message)
  show ?thesis
    unfolding Let_def m p
    using assms e
    by (simp add: sorted_keys_get sign_message_get hmac_sha256_hex_eq spec_signature_def
        api_get_order_keyed [OF assms] Let_def)
qed

theorem api_get_order_request_witness:
  "\<forall>(rt :: 'j runtime) srv net.
     sign_message (api_get_payload client (str ''order-1'')) = Inr (str ''1|order-1|66058'')
     \<and> snd (api_get_order rt srv client (str ''order-1'') net)
         = net @ [\<lparr>req_url = str ''https://api.fk.life/v1/orders'',
                    req_json =
                      [(str ''shopId'', PInt 66058), (str ''nonce'', PInt 1),
                       (str ''paymentId'', PStr (str ''order-1'')),
                       (str ''signature'', PStr (hexdigest (hmac_sha256_digest rt
                          (utf8 (str ''962c879ce9be06f9d34a556872869220''))
                          (utf8 (str ''1|order-1|66058'')))))],
                    req_timeout = 10\<rparr>]"
proof (intro allI)
  fix rt :: "'j runtime" and srv net
  have h: "api_key client = Some (str ''962c879ce9be06f9d34a556872869220'')"
      "str ''962c879ce9be06f9d34a556872869220'' \<noteq> []"
      "list_all encodable (str ''962c879ce9be06f9d34a556872869220'')"
      "list_all encodable (str ''order-1'')"
    by (simp_all add: client_fields str_def encodable_def)
  have msg: "join (str ''|'') [str_int (nonce client), str ''order-1'', str_int (merchant_id client)]
        = str ''1|order-1|66058''"
    by (simp add: client_fields str_int_def nat_digits.simps str_def)
  have pl: "[(str ''shopId'', PInt (merchant_id client)), (str ''nonce'', PInt (nonce client)),
             (str ''paymentId'', PStr (str ''order-1''))]
        = [(str ''shopId'', PInt 66058), (str ''nonce'', PInt 1),
           (str ''paymentId'', PStr (str ''order-1''))]"
    by (simp add: client_fields)
  have url: "api_url client @ str ''orders'' = str ''https://api.fk.life/v1/orders''"
    by (simp add: client_fields default_api_url_def str_def)
  show "sign_message (api_get_payload client (str ''order-1'')) = Inr (str ''1|order-1|66058'')
     \<and> snd (api_get_order rt srv client (str ''order-1'') net)
         = net @ [\<lparr>req_url = str ''https://api.fk.life/v1/orders'',
                    req_json =
                      [(str ''shopId'', PInt 66058), (str ''nonce'', PInt 1),
                       (str ''paymentId'', PStr (str ''order-1'')),
                       (str ''signature'', PStr (hexdigest (hmac_sha256_digest rt
                          (utf8 (str ''962c879ce9be06f9d34a556872869220''))
                          (utf8 (str ''1|order-1|66058'')))))],
                    req_timeout = 10\<rparr>]"
    using api_get_order_request [OF h, where rt = rt and srv = srv and net = net]
    unfolding Let_def msg pl url by simp
qed

text \<open>
  C5. Whatever the transport answers to the request: \<^verbatim>\<open>api_get_order\<close> fails with
  the HTTP error when the response status is in 400..599, whether or not the body is JSON,
  and decodes the body otherwise; \<^verbatim>\<open>api_create_order\<close> never looks at the status
  and decodes the body of every response.
\<close>

theorem api_status_asymmetry:
  assumes "api_key self = Some key" and "key \<noteq> []" and "list_all encodable key"
    and "list_all encodable currency" and "list_all encodable user_email"
    and "list_all encodable user_ip" and "list_all encodable payment_id"
  shows
    "(\<exists>req. api_get_order rt srv self payment_id net =
        ((case srv net req of
            Inl e \<Rightarrow> Inl e
          | Inr resp \<Rightarrow> if 400 \<le> status_code resp \<and> status_code resp < 600
                       then Inl (HTTPError (status_code resp))
                       else (case json_loads rt (content resp) of
                               None \<Rightarrow> Inl JSONDecodeError | Some j \<Rightarrow> Inr j)),
         net @ [req]))
     \<and> (\<exists>req. api_create_order rt srv self n i user_email user_ip payment_id amount currency net =
        ((case srv net req of
            Inl e \<Rightarrow> Inl e
          | Inr resp \<Rightarrow> (case json_loads rt (content resp) of
                          None \<Rightarrow> Inl JSONDecodeError | Some j \<Rightarrow> Inr j)),
         net @ [req]))"
proof (intro conjI)
  show "\<exists>req. api_get_order rt srv self payment_id net =
        ((case srv net req of
            Inl e \<Rightarrow> Inl e
          | Inr resp \<Rightarrow> if 400 \<le> status_code resp \<and> status_code resp < 600
                       then Inl (HTTPError (status_code resp))
                       else (case json_loads rt (content resp) of
                               None \<Rightarrow> Inl JSONDecodeError | Some j \<Rightarrow> Inr j)),
         net @ [req])"
    using api_get_order_keyed [OF assms(1,2,3,7), where rt = rt and srv = srv and net = net]
    by (auto simp: Let_def response_json_def split: sum.split)
  show "\<exists>req. api_create_order rt srv self n i user_email user_ip payment_id amount currency net =
        ((case srv net req of
            Inl e \<Rightarrow> Inl e
          | Inr resp \<Rightarrow> (case json_loads rt (content resp) of
                          None \<Rightarrow> Inl JSONDecodeError | Some j \<Rightarrow> Inr j)),
         net @ [req])"
    using api_create_order_keyed [OF assms, where rt = rt and srv = srv and n = n and i = i
          and amount = amount and net = net]
    by (auto simp: Let_def response_json_def split: sum.split)
qed

text \<open>
  A response with status 404 and the body \<^verbatim>\<open>{}\<close>: get-order fails with the HTTP
  error, create-order returns the decoded body.
\<close>

theorem api_status_asymmetry_witness:
  "fst (api_get_order sample_rt (\<lambda>net req. Inr \<lparr>status_code = 404, content = [123, 125]\<rparr>)
          client (str ''order-1'') [])
     = Inl (HTTPError 404)
   \<and> fst (api_create_order sample_rt (\<lambda>net req. Inr \<lparr>status_code = 404, content = [123, 125]\<rparr>)
          client 1 4 (str ''a@b.c'') (str ''127.0.0.1'') (str ''order-1'')
          (Finite False 10000 (- 2)) (str ''RUB'') [])
     = Inr [123, 125]"
proof -
  have h: "api_key client = Some (str ''962c879ce9be06f9d34a556872869220'')"
      "str ''962c879ce9be06f9d34a556872869220'' \<noteq> []"
      "list_all encodable (str ''962c879ce9be06f9d34a556872869220'')"
      "list_all encodable (str ''RUB'')" "list_all encodable (str ''a@b.c'')"
      "list_all encodable (str ''127.0.0.1'')" "list_all encodable (str ''order-1'')"
    by (simp_all add: client_fields str_def encodable_def)
  show ?thesis
    using api_status_asymmetry [OF h, where rt = sample_rt
        and srv = "\<lambda>net req. Inr \<lparr>status_code = 404, content = [123, 125]\<rparr>"
        and net = "[]" and n = 1 and i = 4 and amount = "Finite False 10000 (- 2)"]
    by (auto simp: sample_rt_def)
qed

subsection \<open>The amount in the signature and in the payload\<close>

text \<open>
  C6 (as amended). For a finite decimal amount the formatted string is an optional minus
  sign, at least one digit, a point and exactly two digits, and both
  \<^verbatim>\<open>ui_create_order\<close> and \<^verbatim>\<open>api_create_order\<close> use the amount through this string
  only: they return what they return for the amount of that many hundredths. An amount
  with at most two fraction digits is formatted exactly. An amount with more is rounded
  in the mode of the current decimal context; under the default mode,
  \<^verbatim>\<open>ROUND_HALF_EVEN\<close>, the hundredths are within half a hundredth of the amount, and
  when the amount lies exactly halfway between two hundredths they are the even one.
\<close>

theorem format_2f_finite:
  "\<exists>ip d1 d0.
     format_2f (context_rounding rt) (Finite neg c e) = minus_sign neg @ ip @ str ''.'' @ [d1, d0]
     \<and> ip \<noteq> [] \<and> list_all is_digit (ip @ [d1, d0])
     \<and> digits_value (ip @ [d1, d0]) = rescale (context_rounding rt) neg c e
     \<and> dict_get (api_create_payload (context_rounding rt) self n i user_email user_ip payment_id
           (Finite neg c e) currency) (str ''amount'')
         = Inr (PStr (minus_sign neg @ ip @ str ''.'' @ [d1, d0]))
     \<and> ui_create_order rt self (Finite neg c e) currency payment_id payment_method_id
         = ui_create_order rt self (Finite neg (digits_value (ip @ [d1, d0])) (- 2)) currency
             payment_id payment_method_id
     \<and> api_create_order rt srv self n i user_email user_ip payment_id (Finite neg c e) currency net
         = api_create_order rt srv self n i user_email user_ip payment_id
             (Finite neg (digits_value (ip @ [d1, d0])) (- 2)) currency net
     \<and> (- 2 \<le> e \<longrightarrow> real (digits_value (ip @ [d1, d0])) / 100 = magnitude c e)
     \<and> (context_rounding rt = ROUND_HALF_EVEN \<longrightarrow>
          \<bar>real (digits_value (ip @ [d1, d0])) / 100 - magnitude c e\<bar> \<le> 1 / 200
          \<and> (\<bar>real (digits_value (ip @ [d1, d0])) / 100 - magnitude c e\<bar> = 1 / 200
               \<longrightarrow> even (digits_value (ip @ [d1, d0]))))"
proof -
  define q where "q = rescale (context_rounding rt) neg c e"
  let ?ip = "nat_digits (q div 100)" and ?d1 = "48 + q div 10 mod 10" and ?d0 = "48 + q mod 10"
  have f: "format_2f (context_rounding rt) (Finite neg c e)
      = minus_sign neg @ ?ip @ str ''.'' @ [?d1, ?d0]"
    by (simp add: format_2f.simps Let_def q_def)
  have n: "?ip \<noteq> []" by (rule nat_digits_nonempty)
  have "list_all is_digit ?ip"
    using nat_digits_range [of "q div 100"] by (simp add: is_digit_def [abs_def])
  moreover have "q div 10 mod 10 < 10" "q mod 10 < 10" by simp_all
  then have "is_digit ?d1" "is_digit ?d0" by (simp_all add: is_digit_def)
  ultimately have g: "list_all is_digit (?ip @ [?d1, ?d0])"
    by simp
  have v: "digits_value (?ip @ [?d1, ?d0]) = rescale (context_rounding rt) neg c e"
    by (simp add: digits_value_hundredths q_def)
  have "dict_get (api_create_payload (context_rounding rt) self n i user_email user_ip payment_id
           (Finite neg c e) currency) (str ''amount'')
         = Inr (PStr (format_2f (context_rounding rt) (Finite neg c e)))"
    by (simp add: api_create_payload_def str_def)
  then have w: "dict_get (api_create_payload (context_rounding rt) self n i user_email user_ip
           payment_id (Finite neg c e) currency) (str ''amount'')
         = Inr (PStr (minus_sign neg @ ?ip @ str ''.'' @ [?d1, ?d0]))"
    by (simp only: f)
  have u: "ui_create_order rt self (Finite neg c e) currency payment_id payment_method_id
         = ui_create_order rt self (Finite neg (digits_value (?ip @ [?d1, ?d0])) (- 2)) currency
             payment_id payment_method_id"
    unfolding v by (rule ui_create_order_amount) (simp add: format_2f_rounded)
  have a: "api_create_order rt srv self n i user_email
        user_ip payment_id (Finite neg c e) currency net
         = api_create_order rt srv self n i user_email user_ip payment_id
             (Finite neg (digits_value (?ip @ [?d1, ?d0])) (- 2)) currency net"
    unfolding v by (rule api_create_order_amount) (simp add: format_2f_rounded)
  have x: "- 2 \<le> e \<longrightarrow> real (digits_value (?ip @ [?d1, ?d0])) / 100 = magnitude c e"
    unfolding v by (simp add: rescale_exact)
  have r: "context_rounding rt = ROUND_HALF_EVEN \<longrightarrow>
      \<bar>real (digits_value (?ip @ [?d1, ?d0])) / 100 - magnitude c e\<bar> \<le> 1 / 200
      \<and> (\<bar>real (digits_value (?ip @ [?d1, ?d0])) / 100 - magnitude c e\<bar> = 1 / 200
           \<longrightarrow> even (digits_value (?ip @ [?d1, ?d0])))"
    unfolding v using rescale_near [of neg c e] by simp
  from f n g v w u a x r show ?thesis by blast
qed

text \<open>
  Under the default mode 0.125, halfway between 0.12 and 0.13, is formatted as 0.12, and
  0.135 as 0.14.
\<close>

theorem format_2f_finite_witness:
  "context_rounding sample_rt = ROUND_HALF_EVEN
   \<and> format_2f (context_rounding sample_rt) (Finite False 125 (- 3)) = str ''0.12''
   \<and> format_2f (context_rounding sample_rt) (Finite False 135 (- 3)) = str ''0.14''
   \<and> format_2f (context_rounding sample_rt) (Finite True 1 (- 3)) = str ''-0.00''
   \<and> format_2f (context_rounding sample_rt) (Finite False 5 1) = str ''50.00''
   \<and> \<bar>real (rescale ROUND_HALF_EVEN False 125 (- 3)) / 100 - magnitude 125 (- 3)\<bar> = 1 / 200
   \<and> even (rescale ROUND_HALF_EVEN False 125 (- 3))
   \<and> (- 2 :: int) \<le> 1
   \<and> real (rescale ROUND_HALF_EVEN False 5 1) / 100 = magnitude 5 1"
proof -
  have m: "context_rounding sample_rt = ROUND_HALF_EVEN"
    by (simp add: sample_rt_def)
  have t: "\<bar>real (rescale ROUND_HALF_EVEN False 125 (- 3)) / 100 - magnitude 125 (- 3)\<bar> = 1 / 200"
    by (simp add: rescale_def magnitude_def pow10_def)
  obtain ip d1 d0 where
    v: "digits_value (ip @ [d1, d0]) = rescale (context_rounding sample_rt) False 125 (- 3)"
    and i: "context_rounding sample_rt = ROUND_HALF_EVEN \<longrightarrow>
          \<bar>real (digits_value (ip @ [d1, d0])) / 100 - magnitude 125 (- 3)\<bar> \<le> 1 / 200
          \<and> (\<bar>real (digits_value (ip @ [d1, d0])) / 100 - magnitude 125 (- 3)\<bar> = 1 / 200
               \<longrightarrow> even (digits_value (ip @ [d1, d0])))"
    using format_2f_finite [where rt = sample_rt and neg = False and c = 125 and e = "- 3"
        and self = client and currency = "str ''RUB''" and payment_id = "str ''order-1''"
        and payment_method_id = 4 and srv = "\<lambda>net req. Inl (RequestException [])"
        and n = 1 and i = 4 and user_email = "str ''a@b.c''" and user_ip = "str ''127.0.0.1''"
        and net = "[]"]
    by blast
  from i m t have e: "even (rescale ROUND_HALF_EVEN False 125 (- 3))" unfolding v m by blast
  obtain ip' d1' d0' where
    v': "digits_value (ip' @ [d1', d0']) = rescale (context_rounding sample_rt) False 5 1"
    and x: "(- 2 :: int) \<le> 1 \<longrightarrow> real (digits_value (ip' @ [d1', d0'])) / 100 = magnitude 5 1"
    using format_2f_finite [where rt = sample_rt and neg = False and c = 5 and e = 1
        and self = client and currency = "str ''RUB''" and payment_id = "str ''order-1''"
        and payment_method_id = 4 and srv = "\<lambda>net req. Inl (RequestException [])"
        and n = 1 and i = 4 and user_email = "str ''a@b.c''" and user_ip = "str ''127.0.0.1''"
        and net = "[]"]
    by blast
  from x have y: "real (rescale ROUND_HALF_EVEN False 5 1) / 100 = magnitude 5 1"
    unfolding v' m by simp
  have "format_2f (context_rounding sample_rt) (Finite False 125 (- 3)) = str ''0.12''"
      "format_2f (context_rounding sample_rt) (Finite False 135 (- 3)) = str ''0.14''"
      "format_2f (context_rounding sample_rt) (Finite True 1 (- 3)) = str ''-0.00''"
      "format_2f (context_rounding sample_rt) (Finite False 5 1) = str ''50.00''"
    unfolding m
    by (simp_all add: format_2f.simps Let_def rescale_def minus_sign_def nat_digits.simps str_def)
  with m t e y show ?thesis by simp
qed

text \<open>
  The claim as stated (two decimal digits, rounded half-even, for every decimal amount)
  fails in two ways. A special value of \<^verbatim>\<open>Decimal\<close> is printed by its name: a NaN is
  formatted as \<^verbatim>\<open>NaN\<close>, without a decimal point, and that is the string the payload
  holds. And in a program that has set the rounding mode of its decimal context to
  \<^verbatim>\<open>ROUND_HALF_UP\<close>, 0.125 is formatted as 0.13, not as the even 0.12.
\<close>

theorem format_2f_not_half_even:
  "format_2f ROUND_HALF_EVEN (NaN False 0) = str ''NaN''
   \<and> 46 \<notin> set (format_2f ROUND_HALF_EVEN (NaN False 0))
   \<and> dict_get (api_create_payload ROUND_HALF_EVEN client 1 4 (str ''a@b.c'') (str ''127.0.0.1'')
         (str ''order-1'') (NaN False 0) (str ''RUB'')) (str ''amount'') = Inr (PStr (str ''NaN''))
   \<and> format_2f ROUND_HALF_UP (Finite False 125 (- 3)) = str ''0.13''
   \<and> dict_get (api_create_payload ROUND_HALF_UP client 1 4 (str ''a@b.c'') (str ''127.0.0.1'')
         (str ''order-1'') (Finite False 125 (- 3)) (str ''RUB'')) (str ''amount'')
       = Inr (PStr (str ''0.13''))"
  by (simp add: format_2f.simps Let_def rescale_def minus_sign_def payload_str_def
      nat_digits.simps api_create_payload_def str_def)

end
